theory Spec2Isabelle
  imports Complex_Main "HOL-Library.Log_Nat"
begin

section \<open>Staged tables\<close>

text \<open>
  A pandas DataFrame is modelled by its columns, in column order: a list of
  (name, cells). A cell is a missing value (\<open>NaN\<close>, which is also what \<open>None\<close> becomes
  in a staged CSV file), a number or a string. \<open>Num\<close> holds the numeric value of an int64
  or a float64 cell; whether a numeric column of a staged file is int64 or float64 is kept
  with the file. The infinities are not part of the model.
\<close>

datatype cell = NaN | Num rat | Str string

type_synonym series = "cell list"

type_synonym dataframe = "(string \<times> series) list"

datatype error =
    FileNotFoundError
  | ParseError
  | KeyError string
  | ValueError
  | OverflowError
  | TypeError
  | AttributeError
  | DatabaseError

text \<open>\<open>c in df.columns\<close>\<close>

definition has_col :: "string \<Rightarrow> dataframe \<Rightarrow> bool" where
  "has_col c df = (map_of df c \<noteq> None)"

text \<open>\<open>df[c]\<close>: raises KeyError when the column is absent.\<close>

definition get_col :: "dataframe \<Rightarrow> string \<Rightarrow> error + series" where
  "get_col df c = (case map_of df c of None \<Rightarrow> Inl (KeyError c) | Some s \<Rightarrow> Inr s)"

text \<open>\<open>df[c] = s\<close>: an existing column is replaced in place, a new one is appended.\<close>

fun set_col :: "string \<Rightarrow> series \<Rightarrow> dataframe \<Rightarrow> dataframe" where
  "set_col c s [] = [(c, s)]"
| "set_col c s ((c', s') # df) =
     (if c = c' then (c, s) # df else (c', s') # set_col c s df)"

text \<open>\<open>len(df)\<close>: the number of rows.\<close>

definition len_df :: "dataframe \<Rightarrow> nat" where
  "len_df df = (case df of [] \<Rightarrow> 0 | (c, s) # _ \<Rightarrow> length s)"

text \<open>\<open>df[c] = v\<close> for a scalar \<open>v\<close>: the value is broadcast to every row.\<close>

definition set_scalar :: "string \<Rightarrow> cell \<Rightarrow> dataframe \<Rightarrow> dataframe" where
  "set_scalar c v df = set_col c (replicate (len_df df) v) df"

text \<open>\<open>range(1, n + 1)\<close> as a column.\<close>

definition range_ids :: "nat \<Rightarrow> series" where
  "range_ids n = map (\<lambda>i. Num (of_nat i)) [1..<n + 1]"

text \<open>\<open>dict(zip(keys, values))\<close>: of two entries with the same key the later one stays.\<close>

definition dict_zip :: "cell list \<Rightarrow> cell list \<Rightarrow> (cell \<rightharpoonup> cell)" where
  "dict_zip ks vs = map_of (rev (zip ks vs))"

text \<open>\<open>series.map(d)\<close> for a dict \<open>d\<close>: a value that is not a key becomes NaN.\<close>

definition series_map :: "(cell \<rightharpoonup> cell) \<Rightarrow> series \<Rightarrow> series" where
  "series_map d s = map (\<lambda>c. case d c of None \<Rightarrow> NaN | Some v \<Rightarrow> v) s"

text \<open>\<open>series.fillna(v)\<close>\<close>

definition fillna :: "cell \<Rightarrow> series \<Rightarrow> series" where
  "fillna v s = map (\<lambda>c. if c = NaN then v else c) s"

text \<open>All columns of a well-formed table have the same number of rows.\<close>

definition wf_df :: "dataframe \<Rightarrow> bool" where
  "wf_df df = (\<forall>(c, s) \<in> set df. length s = len_df df)"


section \<open>Result normalization: the status code\<close>

text \<open>The dict literal \<open>status_map\<close> of \<open>transform_results\<close>.\<close>

definition status_map :: "cell \<rightharpoonup> cell" where
  "status_map = map_of
     [(Str ''Finished'', Num 1),
      (Str ''+1 Lap'', Num 11),
      (Str ''+2 Laps'', Num 12),
      (Str ''+3 Laps'', Num 13),
      (Str ''Retired'', Num 14),
      (Str ''Disqualified'', Num 2),
      (Str ''Accident'', Num 3),
      (Str ''Collision'', Num 4),
      (Str ''Engine'', Num 5)]"

text \<open>
  \<^verbatim>\<open>
  if "status" in df.columns:
      df["status_id"] = df["status"].map(status_map).fillna(14)
  else:
      df["status_id"] = 1
  \<close>
\<close>

definition map_status :: "dataframe \<Rightarrow> dataframe" where
  "map_status df =
     (case map_of df ''status'' of
        Some status \<Rightarrow> set_col ''status_id'' (fillna (Num 14) (series_map status_map status)) df
      | None \<Rightarrow> set_scalar ''status_id'' (Num 1) df)"


section \<open>Python strings and integers\<close>

text \<open>
  Strings are lists of 8-bit characters, read as the code points 0 to 255 of Unicode
  (Latin-1); text with other characters is outside the model. In this range the decimal
  digits, which \<open>int\<close> and \<open>float\<close> accept, are the ten ASCII digits.
\<close>

definition is_digit :: "char \<Rightarrow> bool" where
  "is_digit c = (48 \<le> (of_char c :: nat) \<and> (of_char c :: nat) \<le> 57)"

definition digit_val :: "char \<Rightarrow> nat" where
  "digit_val c = of_char c - 48"

definition digit_char :: "nat \<Rightarrow> char" where
  "digit_char d = char_of (48 + d)"

text \<open>
  \<open>str.isdigit\<close> is true of a non-empty string of digits. A digit is a decimal digit or,
  in this range, one of the superscripts two, three and one (178, 179, 185): of these
  \<open>isdigit\<close> is true and \<open>int\<close> raises ValueError.
\<close>

definition isdigit_char :: "char \<Rightarrow> bool" where
  "isdigit_char c =
     (is_digit c \<or> (of_char c :: nat) = 178 \<or> (of_char c :: nat) = 179 \<or>
      (of_char c :: nat) = 185)"

definition isdigit :: "string \<Rightarrow> bool" where
  "isdigit s = (s \<noteq> [] \<and> list_all isdigit_char s)"

text \<open>Whitespace as \<open>int\<close> and \<open>float\<close> drop it around a number: tab to carriage return, the
  space, the next-line character and the no-break space (133, 160). The separators 28 to
  31, which \<open>str.isspace\<close> counts as whitespace, are not dropped.\<close>

definition is_space :: "char \<Rightarrow> bool" where
  "is_space c =
     (let n = (of_char c :: nat) in (9 \<le> n \<and> n \<le> 13) \<or> n = 32 \<or> n = 133 \<or> n = 160)"

definition strip :: "string \<Rightarrow> string" where
  "strip s = rev (dropWhile is_space (rev (dropWhile is_space s)))"

text \<open>
  \<open>str(n)\<close> for an integer: the decimal digits, after a minus sign when negative. The
  interpreter (3.11, as configured by default) converts no integer of more than 4300
  digits to or from a string: it raises ValueError, here \<open>None\<close>.
\<close>

definition max_str_digits :: nat where
  "max_str_digits = 4300"

fun digits_of_nat :: "nat \<Rightarrow> string" where
  "digits_of_nat n =
     (if n < 10 then [digit_char n] else digits_of_nat (n div 10) @ [digit_char (n mod 10)])"

declare digits_of_nat.simps [simp del]

definition py_str :: "int \<Rightarrow> string option" where
  "py_str i =
     (let ds = digits_of_nat (nat \<bar>i\<bar>)
      in if max_str_digits < length ds then None
         else Some (if i < 0 then CHR ''-'' # ds else ds))"

text \<open>\<open>s.zfill(w)\<close>: zeros are put in front of the string, after a leading sign, until it
  has \<open>w\<close> characters. The format \<open>{n:02d}\<close> pads the decimal digits of \<open>n\<close> the same way.\<close>

definition zfill :: "nat \<Rightarrow> string \<Rightarrow> string" where
  "zfill w s =
     (case s of
        [] \<Rightarrow> replicate w (CHR ''0'')
      | c # r \<Rightarrow>
          if c = CHR ''-'' \<or> c = CHR ''+''
          then c # replicate (w - length s) (CHR ''0'') @ r
          else replicate (w - length s) (CHR ''0'') @ s)"


text \<open>
  \<open>int(s)\<close> for a string: surrounding whitespace is dropped, then an optional sign and
  decimal digits, where single underscores may stand between digits. Anything else
  raises ValueError, here \<open>None\<close>, and so does a number of more than 4300 digits.
\<close>

fun parse_digits :: "nat \<Rightarrow> string \<Rightarrow> nat option" where
  "parse_digits acc [] = Some acc"
| "parse_digits acc [c] = (if is_digit c then Some (10 * acc + digit_val c) else None)"
| "parse_digits acc (c # d # cs) =
     (if is_digit c then parse_digits (10 * acc + digit_val c) (d # cs)
      else if c = CHR ''_'' \<and> is_digit d then parse_digits (10 * acc + digit_val d) cs
      else None)"

definition parse_nat :: "string \<Rightarrow> nat option" where
  "parse_nat s =
     (case s of [] \<Rightarrow> None | c # cs \<Rightarrow> if is_digit c then parse_digits (digit_val c) cs else None)"

definition parse_signed :: "string \<Rightarrow> int option" where
  "parse_signed s =
     (case s of
        [] \<Rightarrow> None
      | c # cs \<Rightarrow>
          if c = CHR ''-'' then map_option (\<lambda>n. - int n) (parse_nat cs)
          else if c = CHR ''+'' then map_option int (parse_nat cs)
          else map_option int (parse_nat s))"

definition py_int :: "string \<Rightarrow> int option" where
  "py_int s =
     (if max_str_digits < length (filter is_digit (strip s)) then None
      else parse_signed (strip s))"


section \<open>The synthesized race id\<close>



section \<open>Python floats\<close>

text \<open>
  A Python float is an IEEE 754 double: a finite value is a rational \<open>m * 2^e\<close> with
  \<open>\<bar>m\<bar> < 2^53\<close> and \<open>- 1074 \<le> e \<le> 971\<close>. Every arithmetic result and every parsed
  literal is the exact value rounded to the nearest double, ties to the even significand;
  a result of magnitude \<open>2^1024\<close> or more is infinite. The sign of zero and of infinity
  is left out: neither \<open>int\<close> nor the product with 1000 depends on it.
\<close>

datatype pyfloat = Finite rat | Infinite | NotANumber

definition pow2 :: "int \<Rightarrow> rat" where
  "pow2 e = (if 0 \<le> e then 2 ^ nat e else 1 / 2 ^ nat (- e))"

definition round_half_even :: "rat \<Rightarrow> int" where
  "round_half_even x =
     (let n = \<lfloor>x\<rfloor>; f = x - of_int n
      in if f < 1 / 2 then n else if 1 / 2 < f then n + 1 else if even n then n else n + 1)"

text \<open>For \<open>x > 0\<close>, the exponent \<open>e\<close> with \<open>2^e \<le> x < 2^(e + 1)\<close>.\<close>

definition binary_exponent :: "rat \<Rightarrow> int" where
  "binary_exponent x =
     (let (p, q) = quotient_of x; e = bitlen p - bitlen q
      in if pow2 e \<le> x then e else e - 1)"

definition round_float64 :: "rat \<Rightarrow> pyfloat" where
  "round_float64 x =
     (if x = 0 then Finite 0
      else
        let e = max (binary_exponent \<bar>x\<bar>) (- 1022);
            u = pow2 (e - 52);
            y = of_int (round_half_even (x / u)) * u
        in if pow2 1024 \<le> \<bar>y\<bar> then Infinite else Finite y)"

text \<open>\<open>a * b\<close> on floats.\<close>

definition fmul :: "pyfloat \<Rightarrow> pyfloat \<Rightarrow> pyfloat" where
  "fmul a b =
     (case (a, b) of
        (Finite x, Finite y) \<Rightarrow> round_float64 (x * y)
      | (NotANumber, _) \<Rightarrow> NotANumber
      | (_, NotANumber) \<Rightarrow> NotANumber
      | (Infinite, Finite y) \<Rightarrow> if y = 0 then NotANumber else Infinite
      | (Finite x, Infinite) \<Rightarrow> if x = 0 then NotANumber else Infinite
      | (Infinite, Infinite) \<Rightarrow> Infinite)"

text \<open>Rounding toward zero.\<close>

definition toward_zero :: "rat \<Rightarrow> int" where
  "toward_zero q = (if 0 \<le> q then \<lfloor>q\<rfloor> else \<lceil>q\<rceil>)"

text \<open>\<open>int(x)\<close> for a float \<open>x\<close>: the fraction is dropped; an infinity raises
  OverflowError and a NaN raises ValueError.\<close>

definition int_of_float :: "pyfloat \<Rightarrow> error + int" where
  "int_of_float x =
     (case x of
        Finite q \<Rightarrow> Inr (toward_zero q)
      | Infinite \<Rightarrow> Inl OverflowError
      | NotANumber \<Rightarrow> Inl ValueError)"

text \<open>
  \<open>float(s)\<close> for a string, by the grammar of the language reference: surrounding
  whitespace, an optional sign, then \<open>inf\<close>, \<open>infinity\<close> or \<open>nan\<close> in any case, or a
  decimal number: digit parts (digits with single underscores between them) around an
  optional point, and an optional exponent. Anything else raises ValueError.
\<close>

fun scan_digits :: "string \<Rightarrow> string \<times> string" where
  "scan_digits [] = ([], [])"
| "scan_digits [c] = (if is_digit c then ([c], []) else ([], [c]))"
| "scan_digits (c # d # cs) =
     (if is_digit c then (let (ds, r) = scan_digits (d # cs) in (c # ds, r))
      else if c = CHR ''_'' \<and> is_digit d then (let (ds, r) = scan_digits cs in (d # ds, r))
      else ([], c # d # cs))"

text \<open>The longest digit part at the front of a string: its digits, and the rest.\<close>

definition digitpart :: "string \<Rightarrow> (string \<times> string) option" where
  "digitpart s =
     (case s of
        [] \<Rightarrow> None
      | c # cs \<Rightarrow> if is_digit c then (let (ds, r) = scan_digits cs in Some (c # ds, r)) else None)"

definition digits_value :: "string \<Rightarrow> nat" where
  "digits_value ds = foldl (\<lambda>a c. 10 * a + digit_val c) 0 ds"

text \<open>The exponent part, which must reach the end of the string; none is exponent 0.\<close>

definition exponent_part :: "string \<Rightarrow> int option" where
  "exponent_part s =
     (case s of
        [] \<Rightarrow> Some 0
      | c # cs \<Rightarrow>
          if c = CHR ''e'' \<or> c = CHR ''E'' then
            (case cs of
               [] \<Rightarrow> None
             | d # ds \<Rightarrow>
                 let (neg, body) =
                   (if d = CHR ''-'' then (True, ds) else if d = CHR ''+'' then (False, ds)
                    else (False, cs))
                 in (case digitpart body of
                       Some (ex, []) \<Rightarrow>
                         Some (if neg then - int (digits_value ex) else int (digits_value ex))
                     | _ \<Rightarrow> None))
          else None)"

definition pow10 :: "int \<Rightarrow> rat" where
  "pow10 e = (if 0 \<le> e then 10 ^ nat e else 1 / 10 ^ nat (- e))"

definition decimal_value :: "string \<Rightarrow> string \<Rightarrow> int \<Rightarrow> rat" where
  "decimal_value ip fp ex =
     of_nat (digits_value (ip @ fp)) * pow10 (ex - int (length fp))"

text \<open>An unsigned number: \<open>[digitpart] "." digitpart | digitpart ["."]\<close>, then the
  exponent part.\<close>

definition float_number :: "string \<Rightarrow> rat option" where
  "float_number s =
     (case digitpart s of
        Some (ip, r1) \<Rightarrow>
          (case r1 of
             c # r2 \<Rightarrow>
               if c = CHR ''.'' then
                 (case digitpart r2 of
                    Some (fp, r3) \<Rightarrow> map_option (decimal_value ip fp) (exponent_part r3)
                  | None \<Rightarrow> map_option (decimal_value ip []) (exponent_part r2))
               else map_option (decimal_value ip []) (exponent_part r1)
           | [] \<Rightarrow> Some (decimal_value ip [] 0))
      | None \<Rightarrow>
          (case s of
             c # r2 \<Rightarrow>
               if c = CHR ''.'' then
                 (case digitpart r2 of
                    Some (fp, r3) \<Rightarrow> map_option (decimal_value [] fp) (exponent_part r3)
                  | None \<Rightarrow> None)
               else None
           | [] \<Rightarrow> None))"

definition lower :: "char \<Rightarrow> char" where
  "lower c = (let n = (of_char c :: nat) in if 65 \<le> n \<and> n \<le> 90 then char_of (n + 32) else c)"

definition abs_float_value :: "string \<Rightarrow> error + pyfloat" where
  "abs_float_value s =
     (let w = map lower s
      in if w = ''inf'' \<or> w = ''infinity'' then Inr Infinite
         else if w = ''nan'' then Inr NotANumber
         else (case float_number s of
                 None \<Rightarrow> Inl ValueError
               | Some q \<Rightarrow> Inr (round_float64 q)))"

definition py_float :: "string \<Rightarrow> error + pyfloat" where
  "py_float s =
     (case strip s of
        [] \<Rightarrow> Inl ValueError
      | c # cs \<Rightarrow>
          if c = CHR ''-'' then
            (case abs_float_value cs of
               Inr (Finite q) \<Rightarrow> Inr (Finite (- q))
             | r \<Rightarrow> r)
          else if c = CHR ''+'' then abs_float_value cs
          else abs_float_value (c # cs))"


section \<open>The staging area and the pandas conversions\<close>

text \<open>
  A staged CSV file has a size in bytes and the table \<open>pd.read_csv\<close> makes of it (or the
  error it raises, on an empty or malformed file), with the names of the numeric columns
  that \<open>pd.read_csv\<close> reads as float64 and not as int64 (a column with a decimal point,
  an exponent or an empty field). The raw directory maps file names to staged files, the
  processed directory maps file names to the tables written there.
\<close>

datatype csv_file =
  CsvFile (getsize: nat) (parsed: "error + dataframe") (float64_columns: "string list")

type_synonym files = "string \<rightharpoonup> csv_file"

type_synonym outputs = "string \<rightharpoonup> dataframe"

text \<open>\<open>pd.read_csv(path)\<close>\<close>

definition read_csv :: "files \<Rightarrow> string \<Rightarrow> error + dataframe" where
  "read_csv fs path = (case fs path of None \<Rightarrow> Inl FileNotFoundError | Some f \<Rightarrow> parsed f)"

text \<open>\<open>not os.path.exists(path) or os.path.getsize(path) < 10\<close>\<close>

definition missing_or_small :: "files \<Rightarrow> string \<Rightarrow> bool" where
  "missing_or_small fs path = (case fs path of None \<Rightarrow> True | Some f \<Rightarrow> getsize f < 10)"

text \<open>\<open>df.to_csv(path, index=False)\<close>\<close>

definition to_csv :: "string \<Rightarrow> dataframe \<Rightarrow> outputs \<Rightarrow> outputs" where
  "to_csv path df out = out(path \<mapsto> df)"

text \<open>
  Two conversions of pandas are not part of the repository and are parameters of the
  model: the number a text cell stands for (\<open>pd.to_numeric\<close>, \<open>None\<close> where the text is
  not a number) and the parsing of dates (\<open>pd.to_datetime\<close> with \<open>errors="coerce"\<close>).
\<close>

record pandas =
  text_to_number :: "string \<Rightarrow> rat option"
  to_datetime :: "cell \<Rightarrow> cell"

text \<open>Sequencing of steps that may raise: the first error ends the sequence.\<close>

definition and_then :: "error + 'a \<Rightarrow> ('a \<Rightarrow> error + 'b) \<Rightarrow> error + 'b" where
  "and_then r f = (case r of Inl e \<Rightarrow> Inl e | Inr x \<Rightarrow> f x)"

fun map_result :: "('a \<Rightarrow> error + 'b) \<Rightarrow> 'a list \<Rightarrow> error + 'b list" where
  "map_result f [] = Inr []"
| "map_result f (x # xs) =
     and_then (f x) (\<lambda>y. and_then (map_result f xs) (\<lambda>ys. Inr (y # ys)))"

text \<open>\<open>pd.to_numeric(series, errors="coerce")\<close>: text that is not a number becomes NaN.\<close>

definition to_numeric :: "pandas \<Rightarrow> series \<Rightarrow> series" where
  "to_numeric pd s =
     map (\<lambda>c. case c of
                 Str t \<Rightarrow> (case text_to_number pd t of None \<Rightarrow> NaN | Some q \<Rightarrow> Num q)
               | _ \<Rightarrow> c) s"

definition is_whole :: "cell \<Rightarrow> bool" where
  "is_whole c = (case c of Num q \<Rightarrow> of_int \<lfloor>q\<rfloor> = q | _ \<Rightarrow> False)"

definition is_text :: "cell \<Rightarrow> bool" where
  "is_text c = (case c of Str t \<Rightarrow> True | _ \<Rightarrow> False)"

text \<open>The integers of int64.\<close>

definition int64 :: "int \<Rightarrow> bool" where
  "int64 n = (- (2 ^ 63) \<le> n \<and> n < 2 ^ 63)"

text \<open>
  The cast of a float64 to int64 drops the fraction. numpy casts with the conversion of
  C, which leaves the result for a value outside int64 to the processor: on x86-64 it is
  \<open>- 2^63\<close>.
\<close>

definition float64_to_int64 :: "rat \<Rightarrow> int" where
  "float64_to_int64 q = (if int64 (toward_zero q) then toward_zero q else - (2 ^ 63))"

text \<open>
  \<open>series.astype(int)\<close>. A column with a text cell is an object column: each element goes
  through \<open>int\<close>, and a result outside int64 raises OverflowError. Any other column is
  numeric and is cast. A missing value raises in both (pandas' IntCastingNaNError is a
  ValueError).
\<close>

definition int_of_cell :: "bool \<Rightarrow> cell \<Rightarrow> error + cell" where
  "int_of_cell object c =
     (case c of
        NaN \<Rightarrow> Inl ValueError
      | Num q \<Rightarrow>
          if object then
            (if int64 (toward_zero q) then Inr (Num (of_int (toward_zero q)))
             else Inl OverflowError)
          else Inr (Num (of_int (float64_to_int64 q)))
      | Str t \<Rightarrow>
          (case py_int t of
             None \<Rightarrow> Inl ValueError
           | Some n \<Rightarrow> if int64 n then Inr (Num (of_int n)) else Inl OverflowError))"

definition astype_int :: "series \<Rightarrow> error + series" where
  "astype_int s = map_result (int_of_cell (list_ex is_text s)) s"

text \<open>\<open>df[cols]\<close> for a list of column names: KeyError when one is absent.\<close>

definition select_cols :: "string list \<Rightarrow> dataframe \<Rightarrow> error + dataframe" where
  "select_cols cols df =
     map_result (\<lambda>c. case map_of df c of None \<Rightarrow> Inl (KeyError c) | Some s \<Rightarrow> Inr (c, s)) cols"

text \<open>\<open>df.empty\<close>: no columns or no rows.\<close>

definition df_empty :: "dataframe \<Rightarrow> bool" where
  "df_empty df = (len_df df = 0)"


section \<open>Reference resolution\<close>

text \<open>
  \<^verbatim>\<open>
  if "driver_id" not in drivers_df.columns:
      drivers_df["driver_id"] = range(1, len(drivers_df) + 1)
  \<close>
\<close>

definition add_id_if_missing :: "string \<Rightarrow> dataframe \<Rightarrow> dataframe" where
  "add_id_if_missing idc ref_df =
     (if has_col idc ref_df then ref_df else set_col idc (range_ids (len_df ref_df)) ref_df)"

text \<open>
  \<^verbatim>\<open>
  m = dict(zip(ref_df[key], ref_df[idc]))
  ... df[key].map(m)
  \<close>
  Each of the three column reads raises KeyError when the column is absent.
\<close>

definition lookup_ids :: "dataframe \<Rightarrow> string \<Rightarrow> string \<Rightarrow> dataframe \<Rightarrow> error + series" where
  "lookup_ids ref_df key idc df =
     and_then (get_col ref_df key) (\<lambda>refs.
     and_then (get_col ref_df idc) (\<lambda>ids.
     and_then (get_col df key) (\<lambda>r.
     Inr (series_map (dict_zip refs ids) r))))"

text \<open>
  The driver block of \<open>transform_results\<close>, \<open>transform_qualifying\<close>,
  \<open>transform_pit_stops\<close> and \<open>transform_standings\<close>:
  \<^verbatim>\<open>
  try:
      drivers_df = pd.read_csv(f"{self.raw_path}drivers.csv")
      if "driver_id" not in drivers_df.columns:
          drivers_df["driver_id"] = range(1, len(drivers_df) + 1)
      driver_map = dict(zip(drivers_df["driver_ref"], drivers_df["driver_id"]))
      df["driver_id"] = df["driver_ref"].map(driver_map)
  except Exception:
      df["driver_id"] = 0
  \<close>
\<close>

definition map_driver_id :: "files \<Rightarrow> dataframe \<Rightarrow> dataframe" where
  "map_driver_id fs df =
     (case and_then (read_csv fs ''drivers.csv'') (\<lambda>drivers_df.
             lookup_ids (add_id_if_missing ''driver_id'' drivers_df) ''driver_ref'' ''driver_id'' df)
      of Inr ids \<Rightarrow> set_col ''driver_id'' ids df
       | Inl e \<Rightarrow> set_scalar ''driver_id'' (Num 0) df)"

text \<open>
  The constructor block of \<open>transform_results\<close>, \<open>transform_qualifying\<close> and
  \<open>transform_standings\<close>:
  \<^verbatim>\<open>
  try:
      constructors_df = pd.read_csv(f"{self.raw_path}constructors.csv")
      constructor_map = dict(
          zip(constructors_df["constructor_ref"], constructors_df["constructor_id"]))
      df["constructor_id"] = df["constructor_ref"].map(constructor_map)
  except Exception:
      df["constructor_id"] = 0
  \<close>
\<close>

definition map_constructor_id :: "files \<Rightarrow> dataframe \<Rightarrow> dataframe" where
  "map_constructor_id fs df =
     (case and_then (read_csv fs ''constructors.csv'') (\<lambda>constructors_df.
             lookup_ids constructors_df ''constructor_ref'' ''constructor_id'' df)
      of Inr ids \<Rightarrow> set_col ''constructor_id'' ids df
       | Inl e \<Rightarrow> set_scalar ''constructor_id'' (Num 0) df)"

text \<open>
  The circuit block of \<open>transform_races\<close>:
  \<^verbatim>\<open>
  if "circuit_ref" in df.columns:
      try:
          circuits_df = pd.read_csv(f"{self.raw_path}circuits.csv")
          if "circuit_id" not in circuits_df.columns:
              circuits_df["circuit_id"] = range(1, len(circuits_df) + 1)
          circuit_map = dict(zip(circuits_df["circuit_ref"], circuits_df["circuit_id"]))
          df["circuit_id"] = df["circuit_ref"].map(circuit_map).fillna(0).astype(int)
      except Exception:
          df["circuit_id"] = 0
  \<close>
\<close>

definition map_circuit_id :: "files \<Rightarrow> dataframe \<Rightarrow> dataframe" where
  "map_circuit_id fs df =
     (if has_col ''circuit_ref'' df then
        (case and_then (read_csv fs ''circuits.csv'') (\<lambda>circuits_df.
                and_then (lookup_ids (add_id_if_missing ''circuit_id'' circuits_df)
                            ''circuit_ref'' ''circuit_id'' df) (\<lambda>ids.
                astype_int (fillna (Num 0) ids)))
         of Inr ids \<Rightarrow> set_col ''circuit_id'' ids df
          | Inl e \<Rightarrow> set_scalar ''circuit_id'' (Num 0) df)
      else df)"


section \<open>The normalization stages\<close>

text \<open>
  A stage reads staged files, writes a cleaned table and may raise: it maps the
  processed directory to the error raised, if any, and the processed directory it leaves.
\<close>

type_synonym stage = "outputs \<Rightarrow> error option \<times> outputs"

text \<open>The end of a stage: the error propagates, or the table is written.\<close>

definition write_or_raise :: "string \<Rightarrow> error + dataframe \<Rightarrow> stage" where
  "write_or_raise path r out =
     (case r of Inl e \<Rightarrow> (Some e, out) | Inr df \<Rightarrow> (None, to_csv path df out))"

subsection \<open>Circuits\<close>

definition circuits_body :: "dataframe \<Rightarrow> error + dataframe" where
  "circuits_body df =
     (let df1 = set_col ''circuit_id'' (range_ids (len_df df)) df
      in and_then (get_col df1 ''altitude'') (\<lambda>a.
         select_cols [''circuit_id'', ''circuit_ref'', ''circuit_name'', ''location'',
                      ''country'', ''lat'', ''lng'', ''altitude'', ''url'']
           (set_col ''altitude'' (fillna (Num 0) a) df1)))"

definition transform_circuits :: "files \<Rightarrow> stage" where
  "transform_circuits fs out =
     (if missing_or_small fs ''circuits.csv'' then (None, to_csv ''circuits_clean.csv'' [] out)
      else write_or_raise ''circuits_clean.csv''
             (and_then (read_csv fs ''circuits.csv'') circuits_body) out)"

subsection \<open>Drivers\<close>

text \<open>\<open>df[col] = "" if col in {"code", "url"} else None\<close>, for each required column that
  is absent.\<close>

fun fill_required :: "string list \<Rightarrow> dataframe \<Rightarrow> dataframe" where
  "fill_required [] df = df"
| "fill_required (c # cs) df =
     fill_required cs
       (if has_col c df then df
        else set_scalar c (if c = ''code'' \<or> c = ''url'' then Str [] else NaN) df)"

definition drivers_body :: "pandas \<Rightarrow> dataframe \<Rightarrow> error + dataframe" where
  "drivers_body pd df =
     (let required_cols = [''driver_id'', ''driver_ref'', ''driver_number'', ''code'',
                           ''forename'', ''surname'', ''dob'', ''nationality'', ''url''];
          df1 = add_id_if_missing ''driver_id'' df;
          df2 = (case map_of df1 ''dob'' of
                   Some d \<Rightarrow> set_col ''dob'' (map (to_datetime pd) d) df1
                 | None \<Rightarrow> df1)
      in and_then
           (case map_of df2 ''driver_number'' of
              Some n \<Rightarrow> and_then (astype_int (fillna (Num 0) n))
                          (\<lambda>n'. Inr (set_col ''driver_number'' n' df2))
            | None \<Rightarrow> Inr (set_scalar ''driver_number'' (Num 0) df2))
           (\<lambda>df3. select_cols required_cols (fill_required required_cols df3)))"

text \<open>\<open>transform_drivers\<close> reads its file without looking whether it is there.\<close>

definition transform_drivers :: "pandas \<Rightarrow> files \<Rightarrow> stage" where
  "transform_drivers pd fs out =
     write_or_raise ''drivers_clean.csv''
       (and_then (read_csv fs ''drivers.csv'') (drivers_body pd)) out"

subsection \<open>Races\<close>

text \<open>
  \<open>series.astype(str)\<close>, as far as the race id needs it; \<open>floats\<close> says that the file
  gives the numbers of the column as floats. A column with a text cell is an object
  column: text stays and a missing value reads \<open>nan\<close>. A column of whole numbers that are
  not floats is an int64 column and gives their decimal digits (\<open>extract_races\<close> writes
  year and round as integers). The text of a float (\<open>2024.0\<close>, \<open>1e+30\<close>, \<open>nan\<close>) has a
  character that no integer literal has, whatever is put before or after it: it is
  \<open>None\<close> here, and so is the text of a number in an object column.
\<close>

definition astype_str :: "bool \<Rightarrow> series \<Rightarrow> string option list" where
  "astype_str floats s =
     (if list_ex is_text s then
        map (\<lambda>c. case c of Str t \<Rightarrow> Some t | NaN \<Rightarrow> Some ''nan'' | Num q \<Rightarrow> None) s
      else if \<not> floats \<and> list_all is_whole s then
        map (\<lambda>c. case c of Num q \<Rightarrow> py_str \<lfloor>q\<rfloor> | _ \<Rightarrow> None) s
      else map (\<lambda>c. None) s)"

text \<open>
  \<^verbatim>\<open>(df["year"].astype(str) + df["round"].astype(str).str.zfill(2)).astype(int)\<close>
  The sum is a column of strings, an object column.
\<close>

definition race_id_column :: "bool \<Rightarrow> series \<Rightarrow> bool \<Rightarrow> series \<Rightarrow> error + series" where
  "race_id_column year_floats year round_floats round_col =
     map_result
       (\<lambda>(y, r). case (y, r) of
                    (Some a, Some b) \<Rightarrow> int_of_cell True (Str (a @ zfill 2 b))
                  | _ \<Rightarrow> Inl ValueError)
       (zip (astype_str year_floats year) (astype_str round_floats round_col))"

text \<open>Whether \<open>pd.read_csv\<close> reads a column of a staged file as float64.\<close>

definition is_float64 :: "files \<Rightarrow> string \<Rightarrow> string \<Rightarrow> bool" where
  "is_float64 fs path c =
     (case fs path of None \<Rightarrow> False | Some f \<Rightarrow> c \<in> set (float64_columns f))"

definition races_body :: "pandas \<Rightarrow> files \<Rightarrow> dataframe \<Rightarrow> error + dataframe" where
  "races_body pd fs df =
     (let df1 = (case map_of df ''race_date'' of
                   Some d \<Rightarrow> set_col ''race_date'' (map (to_datetime pd) d) df
                 | None \<Rightarrow> df);
          df2 = (case map_of df1 ''race_time'' of
                   Some t \<Rightarrow> set_col ''race_time'' (fillna (Str ''00:00:00'') t) df1
                 | None \<Rightarrow> set_scalar ''race_time'' (Str ''00:00:00'') df1);
          df3 = map_circuit_id fs df2
      in case map_of df3 ''race_id'' of
           Some ids \<Rightarrow> and_then (astype_int ids) (\<lambda>ids'. Inr (set_col ''race_id'' ids' df3))
         | None \<Rightarrow>
             and_then (get_col df3 ''year'') (\<lambda>y.
             and_then (get_col df3 ''round'') (\<lambda>r.
             and_then
               (race_id_column (is_float64 fs ''races.csv'' ''year'') y
                  (is_float64 fs ''races.csv'' ''round'') r)
               (\<lambda>ids. Inr (set_col ''race_id'' ids df3)))))"

text \<open>\<open>transform_races\<close> reads its file without looking whether it is there.\<close>

definition transform_races :: "pandas \<Rightarrow> files \<Rightarrow> stage" where
  "transform_races pd fs out =
     write_or_raise ''races_clean.csv''
       (and_then (read_csv fs ''races.csv'') (races_body pd fs)) out"

subsection \<open>Results\<close>

text \<open>\<open>if "position" in df.columns: df["position"] = pd.to_numeric(df["position"],
  errors="coerce")\<close>\<close>

definition coerce_position :: "pandas \<Rightarrow> dataframe \<Rightarrow> dataframe" where
  "coerce_position pd df =
     (case map_of df ''position'' of
        Some p \<Rightarrow> set_col ''position'' (to_numeric pd p) df
      | None \<Rightarrow> df)"

text \<open>\<open>for col in cols: if col in df.columns: df[col] = df[col].fillna(0).astype(int)\<close>\<close>

fun fillna_int_cols :: "string list \<Rightarrow> dataframe \<Rightarrow> error + dataframe" where
  "fillna_int_cols [] df = Inr df"
| "fillna_int_cols (c # cs) df =
     (case map_of df c of
        None \<Rightarrow> fillna_int_cols cs df
      | Some s \<Rightarrow> and_then (astype_int (fillna (Num 0) s))
                   (\<lambda>s'. fillna_int_cols cs (set_col c s' df)))"

text \<open>
  \<^verbatim>\<open>
  if "milliseconds" in df.columns:
      df["milliseconds"] = pd.to_numeric(df["milliseconds"], errors="coerce").fillna(0).astype(int)
  else:
      df["milliseconds"] = 0
  \<close>
\<close>

definition results_milliseconds :: "pandas \<Rightarrow> dataframe \<Rightarrow> error + dataframe" where
  "results_milliseconds pd df =
     (case map_of df ''milliseconds'' of
        Some m \<Rightarrow> and_then (astype_int (fillna (Num 0) (to_numeric pd m)))
                    (\<lambda>m'. Inr (set_col ''milliseconds'' m' df))
      | None \<Rightarrow> Inr (set_scalar ''milliseconds'' (Num 0) df))"

text \<open>
  \<^verbatim>\<open>
  if "position_order" not in df.columns:
      df["position_order"] = df["position"].fillna(999)
  df["position_order"] = pd.to_numeric(
      df["position_order"], errors="coerce").fillna(999).astype(int)
  \<close>
\<close>

definition fill_position_order :: "pandas \<Rightarrow> dataframe \<Rightarrow> error + dataframe" where
  "fill_position_order pd df =
     and_then
       (if has_col ''position_order'' df then Inr df
        else and_then (get_col df ''position'')
               (\<lambda>p. Inr (set_col ''position_order'' (fillna (Num 999) p) df)))
       (\<lambda>df1. and_then (get_col df1 ''position_order'') (\<lambda>po.
              and_then (astype_int (fillna (Num 999) (to_numeric pd po)))
                (\<lambda>po'. Inr (set_col ''position_order'' po' df1))))"

definition results_body :: "pandas \<Rightarrow> files \<Rightarrow> dataframe \<Rightarrow> error + dataframe" where
  "results_body pd fs df =
     and_then
       (fillna_int_cols
          [''points'', ''laps'', ''grid'', ''number'', ''fastest_lap'', ''fastest_lap_rank'']
          (coerce_position pd (map_constructor_id fs (map_driver_id fs df))))
       (\<lambda>df1. and_then (results_milliseconds pd df1)
                (\<lambda>df2. fill_position_order pd (map_status df2)))"

definition transform_results :: "pandas \<Rightarrow> files \<Rightarrow> stage" where
  "transform_results pd fs out =
     (if missing_or_small fs ''results.csv'' then (None, to_csv ''results_clean.csv'' [] out)
      else write_or_raise ''results_clean.csv''
             (and_then (read_csv fs ''results.csv'') (results_body pd fs)) out)"


subsection \<open>Qualifying\<close>

text \<open>\<open>for col in ["q1", "q2", "q3"]: df[col] = df[col].fillna("") if col in df.columns
  else ""\<close>\<close>

fun fill_text_cols :: "string list \<Rightarrow> dataframe \<Rightarrow> dataframe" where
  "fill_text_cols [] df = df"
| "fill_text_cols (c # cs) df =
     fill_text_cols cs
       (case map_of df c of
          Some s \<Rightarrow> set_col c (fillna (Str []) s) df
        | None \<Rightarrow> set_scalar c (Str []) df)"

text \<open>\<open>for col in cols: if col in df.columns: df[col] = pd.to_numeric(df[col],
  errors="coerce").fillna(0).astype(int)\<close>\<close>

fun numeric_int_cols :: "pandas \<Rightarrow> string list \<Rightarrow> dataframe \<Rightarrow> error + dataframe" where
  "numeric_int_cols pd [] df = Inr df"
| "numeric_int_cols pd (c # cs) df =
     (case map_of df c of
        None \<Rightarrow> numeric_int_cols pd cs df
      | Some s \<Rightarrow> and_then (astype_int (fillna (Num 0) (to_numeric pd s)))
                   (\<lambda>s'. numeric_int_cols pd cs (set_col c s' df)))"

definition qualifying_body :: "pandas \<Rightarrow> files \<Rightarrow> dataframe \<Rightarrow> error + dataframe" where
  "qualifying_body pd fs df =
     numeric_int_cols pd [''position'', ''number'']
       (fill_text_cols [''q1'', ''q2'', ''q3'']
          (map_constructor_id fs (map_driver_id fs df)))"

text \<open>\<open>transform_qualifying\<close> reads its file without looking whether it is there.\<close>

definition transform_qualifying :: "pandas \<Rightarrow> files \<Rightarrow> stage" where
  "transform_qualifying pd fs out =
     write_or_raise ''qualifying_clean.csv''
       (and_then (read_csv fs ''qualifying.csv'') (qualifying_body pd fs)) out"

subsection \<open>Pit stops\<close>

text \<open>
  \<open>series * 1000\<close> on a numeric column: the float product. An infinite product has no
  cell in the model; \<open>astype(int)\<close>, three lines further in the same function, raises
  ValueError on it, which is the outcome given here.
\<close>

definition times_1000 :: "cell \<Rightarrow> error + cell" where
  "times_1000 c =
     (case c of
        Num q \<Rightarrow> (case fmul (Finite q) (Finite 1000) of
                    Finite y \<Rightarrow> Inr (Num y)
                  | _ \<Rightarrow> Inl ValueError)
      | _ \<Rightarrow> Inr NaN)"

text \<open>
  \<^verbatim>\<open>
  if "milliseconds" not in df.columns or df["milliseconds"].isna().all():
      if "duration" in df.columns:
          df["milliseconds"] = pd.to_numeric(df["duration"], errors="coerce") * 1000
      else:
          df["milliseconds"] = 0
  df["milliseconds"] = pd.to_numeric(
      df["milliseconds"], errors="coerce").fillna(0).astype(int)
  \<close>
\<close>

definition pit_stop_milliseconds_column :: "pandas \<Rightarrow> dataframe \<Rightarrow> error + dataframe" where
  "pit_stop_milliseconds_column pd df =
     and_then
       (if (case map_of df ''milliseconds'' of None \<Rightarrow> True | Some m \<Rightarrow> list_all (\<lambda>c. c = NaN) m)
        then (case map_of df ''duration'' of
                Some d \<Rightarrow> and_then (map_result times_1000 (to_numeric pd d))
                            (\<lambda>m. Inr (set_col ''milliseconds'' m df))
              | None \<Rightarrow> Inr (set_scalar ''milliseconds'' (Num 0) df))
        else Inr df)
       (\<lambda>df1. and_then (get_col df1 ''milliseconds'') (\<lambda>m.
              and_then (astype_int (fillna (Num 0) (to_numeric pd m)))
                (\<lambda>m'. Inr (set_col ''milliseconds'' m' df1))))"

definition pit_stops_body :: "pandas \<Rightarrow> files \<Rightarrow> dataframe \<Rightarrow> error + dataframe" where
  "pit_stops_body pd fs df =
     (let df1 = map_driver_id fs df;
          df2 = (case map_of df1 ''time_of_day'' of
                   Some t \<Rightarrow> set_col ''time_of_day'' (fillna (Str ''00:00:00'') t) df1
                 | None \<Rightarrow> set_scalar ''time_of_day'' (Str ''00:00:00'') df1)
      in pit_stop_milliseconds_column pd df2)"

definition transform_pit_stops :: "pandas \<Rightarrow> files \<Rightarrow> stage" where
  "transform_pit_stops pd fs out =
     (if missing_or_small fs ''pit_stops.csv''
      then (None, to_csv ''pit_stops_clean.csv'' [] out)
      else write_or_raise ''pit_stops_clean.csv''
             (and_then (read_csv fs ''pit_stops.csv'') (pit_stops_body pd fs)) out)"

subsection \<open>Standings\<close>

text \<open>
  One half of \<open>transform_standings\<close>: a missing or small file counts as an empty table,
  and an empty table is not written.
\<close>

definition standings_body :: "dataframe \<Rightarrow> error + dataframe" where
  "standings_body df =
     and_then (get_col df ''points'') (\<lambda>p.
       let df1 = set_col ''points'' (fillna (Num 0) p) df
       in and_then (get_col df1 ''wins'') (\<lambda>w. Inr (set_col ''wins'' (fillna (Num 0) w) df1)))"

definition transform_standings_of ::
  "(files \<Rightarrow> dataframe \<Rightarrow> dataframe) \<Rightarrow> string \<Rightarrow> string \<Rightarrow> files \<Rightarrow> stage" where
  "transform_standings_of resolve raw_name clean_name fs out =
     (case (if missing_or_small fs raw_name then Inr [] else read_csv fs raw_name) of
        Inl e \<Rightarrow> (Some e, out)
      | Inr df \<Rightarrow>
          if df_empty df then (None, out)
          else write_or_raise clean_name (standings_body (resolve fs df)) out)"

text \<open>Stages in sequence: an exception ends the sequence and keeps what was written.\<close>

fun run_stages :: "stage list \<Rightarrow> stage" where
  "run_stages [] out = (None, out)"
| "run_stages (st # sts) out =
     (case st out of
        (Some e, out') \<Rightarrow> (Some e, out')
      | (None, out') \<Rightarrow> run_stages sts out')"

definition transform_standings :: "files \<Rightarrow> stage" where
  "transform_standings fs =
     run_stages
       [transform_standings_of map_constructor_id ''constructor_standings.csv''
          ''constructor_standings_clean.csv'' fs,
        transform_standings_of map_driver_id ''driver_standings.csv''
          ''driver_standings_clean.csv'' fs]"

subsection \<open>The whole normalization run\<close>

text \<open>\<open>transform_all\<close> calls the seven stages in a \<open>try\<close> block whose handler prints the
  exception and raises it again.\<close>

definition transform_all :: "pandas \<Rightarrow> files \<Rightarrow> stage" where
  "transform_all pd fs =
     run_stages
       [transform_circuits fs,
        transform_drivers pd fs,
        transform_races pd fs,
        transform_results pd fs,
        transform_qualifying pd fs,
        transform_pit_stops pd fs,
        transform_standings fs]"


section \<open>Extraction: the fields of a row\<close>

text \<open>A record of the API with its text fields; \<open>d.get(key, default)\<close>.\<close>

definition dict_get :: "(string \<rightharpoonup> string) \<Rightarrow> string \<Rightarrow> string \<Rightarrow> string" where
  "dict_get d k dflt = (case d k of None \<Rightarrow> dflt | Some v \<Rightarrow> v)"

text \<open>
  \<open>extract_results\<close>, with \<open>position = result.get('position', '')\<close>:
  \<^verbatim>\<open>
  'position': int(position) if position.isdigit() else None,
  'position_order': int(result.get('position', 999)) if position.isdigit() else 999,
  \<close>
  When \<open>position\<close> is a digit string the key is present, so the second \<open>get\<close> returns
  the same string.
\<close>

definition int_of_text :: "string \<Rightarrow> error + cell" where
  "int_of_text t = (case py_int t of None \<Rightarrow> Inl ValueError | Some n \<Rightarrow> Inr (Num (of_int n)))"

definition result_position :: "(string \<rightharpoonup> string) \<Rightarrow> error + cell" where
  "result_position result =
     (let position = dict_get result ''position'' []
      in if isdigit position then int_of_text position else Inr NaN)"

definition result_position_order :: "(string \<rightharpoonup> string) \<Rightarrow> error + cell" where
  "result_position_order result =
     (let position = dict_get result ''position'' []
      in if isdigit position then int_of_text position else Inr (Num 999))"

text \<open>
  \<open>extract_pit_stops\<close>, with \<open>duration = pit_stop.get('duration', '')\<close>:
  \<^verbatim>\<open>'milliseconds': int(float(duration) * 1000) if duration else None\<close>
\<close>

definition pit_stop_milliseconds :: "(string \<rightharpoonup> string) \<Rightarrow> error + cell" where
  "pit_stop_milliseconds pit_stop =
     (let duration = dict_get pit_stop ''duration'' []
      in if duration \<noteq> [] then
           and_then (py_float duration) (\<lambda>x.
           and_then (int_of_float (fmul x (Finite 1000))) (\<lambda>n. Inr (Num (of_int n))))
         else Inr NaN)"


section \<open>Extraction: paginated retrieval\<close>

text \<open>A JSON value; the keys of an object are distinct and keep their order.\<close>

datatype json =
    JNull
  | JBool bool
  | JNum rat
  | JStr string
  | JArr "json list"
  | JObj "(string \<times> json) list"

text \<open>Truth value of a JSON value in a condition (\<open>if not x\<close>).\<close>

definition truthy :: "json \<Rightarrow> bool" where
  "truthy j =
     (case j of
        JNull \<Rightarrow> False
      | JBool b \<Rightarrow> b
      | JNum q \<Rightarrow> q \<noteq> 0
      | JStr t \<Rightarrow> t \<noteq> []
      | JArr xs \<Rightarrow> xs \<noteq> []
      | JObj kvs \<Rightarrow> kvs \<noteq> [])"

text \<open>
  The outcome of one HTTP request: \<open>requests.get\<close> followed by \<open>raise_for_status\<close> and
  \<open>response.json()\<close> either raises a RequestException (timeout, connection error, a
  status that is not 2xx) or gives the decoded body, a JSON object as the return type
  \<open>Optional[Dict]\<close> says. The server is a function of end point, limit and offset.
\<close>

datatype http_result = RequestException | Response "(string \<times> json) list"

type_synonym server = "string \<Rightarrow> nat \<Rightarrow> nat \<Rightarrow> http_result"

text \<open>\<open>_make_request\<close>: the exception is caught and printed, and \<open>None\<close> is returned.\<close>

definition make_request :: "server \<Rightarrow> string \<Rightarrow> nat \<Rightarrow> nat \<Rightarrow> (string \<times> json) list option" where
  "make_request http endpoint limit offset =
     (case http endpoint limit offset of
        RequestException \<Rightarrow> None
      | Response body \<Rightarrow> Some body)"

definition endswith :: "string \<Rightarrow> string \<Rightarrow> bool" where
  "endswith t suffix =
     (length suffix \<le> length t \<and> drop (length t - length suffix) t = suffix)"

definition is_list :: "json \<Rightarrow> bool" where
  "is_list j = (case j of JArr xs \<Rightarrow> True | _ \<Rightarrow> False)"

text \<open>
  \<open>_extract_table\<close>. \<open>mr_data.get\<close> and \<open>table_data.items\<close> raise AttributeError on a
  value that is not an object.
\<close>

definition extract_table :: "(string \<times> json) list \<Rightarrow> string \<Rightarrow> error + json" where
  "extract_table json_data table_name =
     (case (if json_data = [] then None else map_of json_data ''MRData'') of
        None \<Rightarrow> Inr (JArr [])
      | Some (JObj mr_data) \<Rightarrow>
          (let found = (case map_of mr_data table_name of None \<Rightarrow> JNull | Some v \<Rightarrow> v);
               table_data =
                 (if truthy found then found
                  else (case find (\<lambda>(k, v). endswith k ''Table'') mr_data of
                          Some (k, v) \<Rightarrow> v
                        | None \<Rightarrow> found))
           in if \<not> truthy table_data then Inr (JArr [])
              else (case table_data of
                      JObj items \<Rightarrow>
                        (case find (\<lambda>(k, v). is_list v) items of
                           Some (k, v) \<Rightarrow> Inr v
                         | None \<Rightarrow>
                             (case map_of items ''StandingsLists'' of
                                Some v \<Rightarrow> Inr v
                              | None \<Rightarrow> Inr (JArr [])))
                    | _ \<Rightarrow> Inl AttributeError))
      | Some _ \<Rightarrow> Inl AttributeError)"

text \<open>\<open>for x in value\<close>: the elements of a list, the keys of an object, the characters
  of a string; another value is not iterable.\<close>

definition iterate :: "json \<Rightarrow> error + json list" where
  "iterate j =
     (case j of
        JArr xs \<Rightarrow> Inr xs
      | JObj kvs \<Rightarrow> Inr (map (\<lambda>(k, v). JStr k) kvs)
      | JStr t \<Rightarrow> Inr (map (\<lambda>c. JStr [c]) t)
      | _ \<Rightarrow> Inl TypeError)"

text \<open>
  One turn of the loop of \<open>extract_circuits\<close> (the same loop, with another end point,
  table name and row, is in \<open>extract_constructors\<close> and \<open>extract_drivers\<close> and, for each
  year, in the extractors of races, results, qualifying and pit stops):
  \<^verbatim>\<open>
  data = self._make_request("circuits", limit=limit, offset=offset)
  if not data:
      break
  circuits = self._extract_table(data, "CircuitsTable")
  if not circuits:
      break
  for circuit in circuits:
      all_circuits.append({...})
  if len(circuits) < limit:
      break
  offset += limit
  \<close>
  The turn ends the loop with nothing new (\<open>Stop\<close>), raises, ends the loop after its
  rows (\<open>Last\<close>) or goes on to the next offset after its rows (\<open>More\<close>).
\<close>

datatype 'r turn = Stop | Raise error | Last "'r list" | More "'r list"

definition page_turn ::
  "server \<Rightarrow> string \<Rightarrow> string \<Rightarrow> (json \<Rightarrow> error + 'r) \<Rightarrow> nat \<Rightarrow> nat \<Rightarrow> 'r turn" where
  "page_turn http endpoint table_name make_row limit offset =
     (case make_request http endpoint limit offset of
        None \<Rightarrow> Stop
      | Some data \<Rightarrow>
          if data = [] then Stop
          else (case extract_table data table_name of
                  Inl e \<Rightarrow> Raise e
                | Inr page \<Rightarrow>
                    if \<not> truthy page then Stop
                    else (case iterate page of
                            Inl e \<Rightarrow> Raise e
                          | Inr items \<Rightarrow>
                              (case map_result make_row items of
                                 Inl e \<Rightarrow> Raise e
                               | Inr rows \<Rightarrow>
                                   if length items < limit then Last rows else More rows))))"

text \<open>The \<open>while True\<close> loop. It need not end: the result is \<open>None\<close> when it does not.\<close>

partial_function (option) fetch_pages ::
  "(nat \<Rightarrow> 'r turn) \<Rightarrow> nat \<Rightarrow> nat \<Rightarrow> 'r list \<Rightarrow> (error + 'r list) option" where
  "fetch_pages turn limit offset acc =
     (case turn offset of
        Stop \<Rightarrow> Some (Inr acc)
      | Raise e \<Rightarrow> Some (Inl e)
      | Last rows \<Rightarrow> Some (Inr (acc @ rows))
      | More rows \<Rightarrow> fetch_pages turn limit (offset + limit) (acc @ rows))"

text \<open>The rows of one resource: \<open>offset = 0\<close>, \<open>limit = 100\<close>, no rows yet.\<close>

definition extract_resource ::
  "server \<Rightarrow> string \<Rightarrow> string \<Rightarrow> (json \<Rightarrow> error + 'r) \<Rightarrow> (error + 'r list) option" where
  "extract_resource http endpoint table_name make_row =
     fetch_pages (page_turn http endpoint table_name make_row 100) 100 0 []"




section \<open>Extraction: the staged files\<close>

text \<open>
  What the pipeline takes from pandas and from the configuration, and the rows the
  extractors build. The row that an extractor makes of one record of the API (a dict of
  fields, with the conversions \<open>int\<close> and \<open>float\<close> that may raise) is a function of the
  record and, for the year-scoped entities, of the year of the request (for standings also
  of the round): the functions are parameters, and what is proved of a run holds for all of
  them. \<open>frame\<close> is \<open>pd.DataFrame(rows)\<close>, \<open>written\<close> is the file that \<open>df.to_csv(path,
  index=False)\<close> leaves, as a later \<open>os.path.getsize\<close> and \<open>pd.read_csv\<close> find it, and
  \<open>date_of\<close> is \<open>.dt.date\<close> after \<open>pd.to_datetime\<close>. \<open>connect\<close> is the exception of the
  connection test of \<open>F1DataLoader._connect\<close>, if any, and \<open>sqlite\<close> says that the
  configured database type is \<open>sqlite\<close>.
\<close>

type_synonym row = "(string \<times> cell) list"

record environment =
  frame :: "row list \<Rightarrow> dataframe"
  written :: "dataframe \<Rightarrow> csv_file"
  date_of :: "cell \<Rightarrow> cell"
  circuit_row :: "json \<Rightarrow> error + row"
  season_row :: "json \<Rightarrow> error + row"
  constructor_row :: "json \<Rightarrow> error + row"
  driver_row :: "json \<Rightarrow> error + row"
  race_row :: "int \<Rightarrow> json \<Rightarrow> error + row"
  result_rows :: "int \<Rightarrow> json \<Rightarrow> error + row list"
  qualifying_rows :: "int \<Rightarrow> json \<Rightarrow> error + row list"
  pit_stop_rows :: "int \<Rightarrow> json \<Rightarrow> error + row list"
  constructor_standing_rows :: "int \<Rightarrow> int \<Rightarrow> json \<Rightarrow> error + row list"
  driver_standing_rows :: "int \<Rightarrow> int \<Rightarrow> json \<Rightarrow> error + row list"
  connect :: "error option"
  sqlite :: bool

text \<open>
  An extractor maps the raw directory to the exception it raises, if any, and the raw
  directory it leaves; it has no result when one of its pagination loops does not end.
  \<open>df.to_csv(f'{self.output_path}circuits.csv', index=False)\<close> replaces the file.
\<close>

type_synonym extraction = "files \<Rightarrow> (error option \<times> files) option"

definition write_raw :: "environment \<Rightarrow> string \<Rightarrow> dataframe \<Rightarrow> files \<Rightarrow> files" where
  "write_raw env path df raw = raw(path \<mapsto> written env df)"

text \<open>The end of an extractor: \<open>df = pd.DataFrame(rows); df.to_csv(path, index=False)\<close>.\<close>

definition stage_rows ::
  "environment \<Rightarrow> string \<Rightarrow> (error + row list) option \<Rightarrow> extraction" where
  "stage_rows env path r raw =
     (case r of
        None \<Rightarrow> None
      | Some (Inl e) \<Rightarrow> Some (Some e, raw)
      | Some (Inr rows) \<Rightarrow> Some (None, write_raw env path (frame env rows) raw))"

definition extract_circuits :: "environment \<Rightarrow> server \<Rightarrow> extraction" where
  "extract_circuits env http =
     stage_rows env ''circuits.csv''
       (extract_resource http ''circuits'' ''CircuitsTable'' (circuit_row env))"

text \<open>
  \<open>extract_seasons\<close>: one request with \<open>limit=100\<close>; without data it returns \<open>None\<close> and
  writes no file.
\<close>

definition extract_seasons :: "environment \<Rightarrow> server \<Rightarrow> extraction" where
  "extract_seasons env http raw =
     (case make_request http ''seasons'' 100 0 of
        None \<Rightarrow> Some (None, raw)
      | Some data \<Rightarrow>
          if data = [] then Some (None, raw)
          else stage_rows env ''seasons.csv''
                 (Some (and_then (extract_table data ''SeasonTable'') (\<lambda>seasons.
                        and_then (iterate seasons) (map_result (season_row env))))) raw)"

text \<open>\<open>df.insert(0, c, s)\<close>: the new first column; ValueError when the frame has a column
  of that name.\<close>

definition insert_front :: "string \<Rightarrow> series \<Rightarrow> dataframe \<Rightarrow> error + dataframe" where
  "insert_front c s df = (if has_col c df then Inl ValueError else Inr ((c, s) # df))"

text \<open>
  \<open>extract_constructors\<close> and \<open>extract_drivers\<close>: the rows in the order of the API, then
  \<open>df.insert(0, 'constructor_id', range(1, len(df) + 1))\<close>.
\<close>

definition stage_with_ids ::
  "environment \<Rightarrow> string \<Rightarrow> string \<Rightarrow> (error + row list) option \<Rightarrow> extraction" where
  "stage_with_ids env path idc r raw =
     (case r of
        None \<Rightarrow> None
      | Some (Inl e) \<Rightarrow> Some (Some e, raw)
      | Some (Inr rows) \<Rightarrow>
          (let df = frame env rows
           in case insert_front idc (range_ids (len_df df)) df of
                Inl e \<Rightarrow> Some (Some e, raw)
              | Inr df' \<Rightarrow> Some (None, write_raw env path df' raw)))"

definition extract_constructors :: "environment \<Rightarrow> server \<Rightarrow> extraction" where
  "extract_constructors env http =
     stage_with_ids env ''constructors.csv'' ''constructor_id''
       (extract_resource http ''constructors'' ''ConstructorTable'' (constructor_row env))"

definition extract_drivers :: "environment \<Rightarrow> server \<Rightarrow> extraction" where
  "extract_drivers env http =
     stage_with_ids env ''drivers.csv'' ''driver_id''
       (extract_resource http ''drivers'' ''DriverTable'' (driver_row env))"

text \<open>
  The loop of the year-scoped extractors,
  \<^verbatim>\<open>
  for year in range(start_year, end_year + 1):
      offset = 0
      limit = 100
      while True:
          data = self._make_request(f"{year}/races", limit=limit, offset=offset)
          ...
  \<close>
  with the pagination loop of \<open>extract_circuits\<close> inside: the rows of all years in one
  list. The end point is made with \<open>str(year)\<close>.
\<close>

fun extract_years ::
  "server \<Rightarrow> string \<Rightarrow> string \<Rightarrow> (int \<Rightarrow> json \<Rightarrow> error + 'r) \<Rightarrow> int list \<Rightarrow> 'r list \<Rightarrow>
   (error + 'r list) option" where
  "extract_years http name table_name make_row [] acc = Some (Inr acc)"
| "extract_years http name table_name make_row (year # years) acc =
     (case py_str year of
        None \<Rightarrow> Some (Inl ValueError)
      | Some y \<Rightarrow>
          (case fetch_pages (page_turn http (y @ ''/'' @ name) table_name (make_row year) 100)
                  100 0 acc of
             None \<Rightarrow> None
           | Some (Inl e) \<Rightarrow> Some (Inl e)
           | Some (Inr acc') \<Rightarrow> extract_years http name table_name make_row years acc'))"

text \<open>
  The first statement of a year-scoped extractor,
  \<open>print(f"Extracting races ({start_year}-{end_year})...")\<close>, writes both years as text:
  ValueError for a year of more than 4300 digits.
\<close>

definition announce :: "int \<Rightarrow> int \<Rightarrow> extraction \<Rightarrow> extraction" where
  "announce start_year end_year x raw =
     (case (py_str start_year, py_str end_year) of
        (Some a, Some b) \<Rightarrow> x raw
      | _ \<Rightarrow> Some (Some ValueError, raw))"

text \<open>\<open>range(start_year, end_year + 1)\<close>\<close>

definition year_range :: "int \<Rightarrow> int \<Rightarrow> int list" where
  "year_range start_year end_year = [start_year..end_year]"

definition extract_races :: "environment \<Rightarrow> server \<Rightarrow> int \<Rightarrow> int \<Rightarrow> extraction" where
  "extract_races env http start_year end_year =
     announce start_year end_year
       (stage_rows env ''races.csv''
          (extract_years http ''races'' ''RaceTable'' (race_row env)
             (year_range start_year end_year) []))"

text \<open>The result, qualifying and pit-stop extractors make a list of rows of each race of
  a page.\<close>

definition nested_rows :: "(error + row list list) option \<Rightarrow> (error + row list) option" where
  "nested_rows r = map_option (\<lambda>x. and_then x (\<lambda>rows. Inr (concat rows))) r"

definition extract_results :: "environment \<Rightarrow> server \<Rightarrow> int \<Rightarrow> int \<Rightarrow> extraction" where
  "extract_results env http start_year end_year =
     announce start_year end_year
       (stage_rows env ''results.csv''
          (nested_rows (extract_years http ''results'' ''RaceTable'' (result_rows env)
             (year_range start_year end_year) [])))"

definition extract_qualifying :: "environment \<Rightarrow> server \<Rightarrow> int \<Rightarrow> int \<Rightarrow> extraction" where
  "extract_qualifying env http start_year end_year =
     announce start_year end_year
       (stage_rows env ''qualifying.csv''
          (nested_rows (extract_years http ''qualifying'' ''RaceTable'' (qualifying_rows env)
             (year_range start_year end_year) [])))"

definition extract_pit_stops :: "environment \<Rightarrow> server \<Rightarrow> int \<Rightarrow> int \<Rightarrow> extraction" where
  "extract_pit_stops env http start_year end_year =
     announce start_year end_year
       (stage_rows env ''pit_stops.csv''
          (nested_rows (extract_years http ''pitstops'' ''RaceTable'' (pit_stop_rows env)
             (year_range start_year end_year) [])))"

text \<open>
  One request of \<open>extract_standings\<close>, with the default \<open>limit=1000\<close> and \<open>offset=0\<close>:
  \<^verbatim>\<open>
  data = self._make_request(f"{year}/{round_num}/constructorStandings")
  if not data:
      continue
  standings = self._extract_table(data, "StandingsTable")
  if not standings:
      continue
  for standing_list in standings:
      ...
  \<close>
\<close>

definition standings_request ::
  "server \<Rightarrow> string \<Rightarrow> int \<Rightarrow> int \<Rightarrow> (json \<Rightarrow> error + row list) \<Rightarrow> error + row list" where
  "standings_request http name year round_num make_rows =
     (case (py_str year, py_str round_num) of
        (Some y, Some r) \<Rightarrow>
          (case make_request http (y @ ''/'' @ r @ ''/'' @ name) 1000 0 of
             None \<Rightarrow> Inr []
           | Some data \<Rightarrow>
               if data = [] then Inr []
               else and_then (extract_table data ''StandingsTable'') (\<lambda>standings.
                      if \<not> truthy standings then Inr []
                      else and_then (iterate standings) (\<lambda>items.
                           and_then (map_result make_rows items) (\<lambda>rows. Inr (concat rows)))))
      | _ \<Rightarrow> Inl ValueError)"

text \<open>The rounds 1 to 24 of one year, the constructor standings and then the driver
  standings.\<close>

definition standings_of_year ::
  "environment \<Rightarrow> server \<Rightarrow> int \<Rightarrow> error + (row list \<times> row list)" where
  "standings_of_year env http year =
     and_then
       (map_result
          (\<lambda>r. standings_request http ''constructorStandings'' year r
                 (constructor_standing_rows env year r)) [1..24])
       (\<lambda>cs. and_then
          (map_result
             (\<lambda>r. standings_request http ''driverStandings'' year r
                    (driver_standing_rows env year r)) [1..24])
          (\<lambda>ds. Inr (concat cs, concat ds)))"

definition extract_standings :: "environment \<Rightarrow> server \<Rightarrow> int \<Rightarrow> int \<Rightarrow> extraction" where
  "extract_standings env http start_year end_year =
     announce start_year end_year
       (\<lambda>raw.
          case map_result (standings_of_year env http) (year_range start_year end_year) of
            Inl e \<Rightarrow> Some (Some e, raw)
          | Inr ys \<Rightarrow>
              Some (None,
                write_raw env ''driver_standings.csv'' (frame env (concat (map snd ys)))
                  (write_raw env ''constructor_standings.csv''
                     (frame env (concat (map fst ys))) raw)))"

text \<open>Extractors in sequence: an exception, or a loop that does not end, ends the
  sequence.\<close>

fun run_extractions :: "extraction list \<Rightarrow> extraction" where
  "run_extractions [] raw = Some (None, raw)"
| "run_extractions (x # xs) raw =
     (case x raw of
        None \<Rightarrow> None
      | Some (Some e, raw') \<Rightarrow> Some (Some e, raw')
      | Some (None, raw') \<Rightarrow> run_extractions xs raw')"

text \<open>\<open>extract_all\<close> calls the nine extractors in a \<open>try\<close> block whose handler prints the
  exception and raises it again.\<close>

definition extract_all :: "environment \<Rightarrow> server \<Rightarrow> int \<Rightarrow> int \<Rightarrow> extraction" where
  "extract_all env http start_year end_year =
     run_extractions
       [extract_circuits env http,
        extract_seasons env http,
        extract_constructors env http,
        extract_drivers env http,
        extract_races env http start_year end_year,
        extract_results env http start_year end_year,
        extract_qualifying env http start_year end_year,
        extract_pit_stops env http (max 2012 start_year) end_year,
        extract_standings env http start_year end_year]"


section \<open>Loading\<close>

text \<open>
  The database maps table names to tables. \<open>_load_table\<close> skips an empty frame; for
  SQLite it calls \<open>df.to_sql(table_name, engine, if_exists='replace', index=False)\<close>, for
  MySQL it executes \<open>DELETE FROM table_name\<close>, which raises when there is no such table, and
  \<open>df.to_sql(..., if_exists='append', index=False)\<close>. \<open>to_sql\<close> is the sink of the
  specification: after the load the table holds the rows of the frame, whatever it held
  before.
\<close>

type_synonym database = "string \<rightharpoonup> dataframe"

definition load_table :: "environment \<Rightarrow> error + dataframe \<Rightarrow> string \<Rightarrow> stage" where
  "load_table env r table_name db =
     (case r of
        Inl e \<Rightarrow> (Some e, db)
      | Inr df \<Rightarrow>
          if df_empty df then (None, db)
          else if sqlite env then (None, db(table_name \<mapsto> df))
          else (case db table_name of
                  None \<Rightarrow> (Some DatabaseError, db)
                | Some old \<Rightarrow> (None, db(table_name \<mapsto> df))))"

text \<open>\<open>pd.read_csv\<close> of a file of the processed directory: the table that a stage has
  written there, as it is read back.\<close>

definition read_processed :: "environment \<Rightarrow> outputs \<Rightarrow> string \<Rightarrow> error + dataframe" where
  "read_processed env out path =
     (case out path of None \<Rightarrow> Inl FileNotFoundError | Some df \<Rightarrow> parsed (written env df))"

text \<open>\<open>if c in df.columns: df[c] = pd.to_datetime(df[c], errors='coerce').dt.date\<close>\<close>

definition dates_of :: "environment \<Rightarrow> string \<Rightarrow> dataframe \<Rightarrow> dataframe" where
  "dates_of env c df =
     (case map_of df c of Some s \<Rightarrow> set_col c (map (date_of env) s) df | None \<Rightarrow> df)"

text \<open>\<open>if c in df.columns: df[c] = df[c].fillna('00:00:00')\<close>\<close>

definition fill_time :: "string \<Rightarrow> dataframe \<Rightarrow> dataframe" where
  "fill_time c df =
     (case map_of df c of Some s \<Rightarrow> set_col c (fillna (Str ''00:00:00'') s) df | None \<Rightarrow> df)"

text \<open>\<open>df[[col for col in required_cols if col in df.columns]]\<close>\<close>

definition present_cols :: "string list \<Rightarrow> dataframe \<Rightarrow> dataframe" where
  "present_cols cols df =
     concat (map (\<lambda>c. case map_of df c of Some s \<Rightarrow> [(c, s)] | None \<Rightarrow> []) cols)"

definition load_seasons :: "environment \<Rightarrow> files \<Rightarrow> stage" where
  "load_seasons env raw = load_table env (read_csv raw ''seasons.csv'') ''seasons''"

definition load_circuits :: "environment \<Rightarrow> outputs \<Rightarrow> stage" where
  "load_circuits env out = load_table env (read_processed env out ''circuits_clean.csv'') ''circuits''"

definition load_constructors :: "environment \<Rightarrow> files \<Rightarrow> stage" where
  "load_constructors env raw = load_table env (read_csv raw ''constructors.csv'') ''constructors''"

definition load_drivers :: "environment \<Rightarrow> outputs \<Rightarrow> stage" where
  "load_drivers env out =
     load_table env
       (and_then (read_processed env out ''drivers_clean.csv'') (\<lambda>df. Inr (dates_of env ''dob'' df)))
       ''drivers''"

definition load_races :: "environment \<Rightarrow> outputs \<Rightarrow> stage" where
  "load_races env out =
     load_table env
       (and_then (read_processed env out ''races_clean.csv'')
          (\<lambda>df. Inr (fill_time ''race_time'' (dates_of env ''race_date'' df))))
       ''races''"

definition load_results :: "environment \<Rightarrow> outputs \<Rightarrow> stage" where
  "load_results env out =
     load_table env
       (and_then (read_processed env out ''results_clean.csv'')
          (\<lambda>df. Inr (present_cols
             [''race_id'', ''driver_id'', ''constructor_id'', ''number'', ''grid'',
              ''position'', ''position_text'', ''position_order'', ''points'', ''laps'',
              ''time_result'', ''milliseconds'', ''fastest_lap'', ''fastest_lap_rank'',
              ''fastest_lap_time'', ''fastest_lap_speed'', ''status_id''] df)))
       ''results''"

definition load_qualifying :: "environment \<Rightarrow> outputs \<Rightarrow> stage" where
  "load_qualifying env out =
     load_table env
       (and_then (read_processed env out ''qualifying_clean.csv'')
          (\<lambda>df. Inr (present_cols
             [''race_id'', ''driver_id'', ''constructor_id'', ''number'', ''position'',
              ''q1'', ''q2'', ''q3''] df)))
       ''qualifying''"

definition load_pit_stops :: "environment \<Rightarrow> outputs \<Rightarrow> stage" where
  "load_pit_stops env out =
     load_table env
       (and_then (read_processed env out ''pit_stops_clean.csv'')
          (\<lambda>df. Inr (present_cols
             [''race_id'', ''driver_id'', ''stop'', ''lap'', ''time_of_day'', ''duration'',
              ''milliseconds''] (fill_time ''time_of_day'' df))))
       ''pit_stops''"

definition load_standings :: "environment \<Rightarrow> outputs \<Rightarrow> stage" where
  "load_standings env out =
     run_stages
       [load_table env
          (and_then (read_processed env out ''constructor_standings_clean.csv'')
             (\<lambda>df. Inr (present_cols
                [''race_id'', ''constructor_id'', ''points'', ''position'', ''position_text'',
                 ''wins''] df)))
          ''constructor_standings'',
        load_table env
          (and_then (read_processed env out ''driver_standings_clean.csv'')
             (\<lambda>df. Inr (present_cols
                [''race_id'', ''driver_id'', ''points'', ''position'', ''position_text'',
                 ''wins''] df)))
          ''driver_standings'']"

text \<open>\<open>load_all\<close> calls the loaders in a \<open>try\<close> block whose handler prints the exception and
  raises it again. The seasons and the constructors are loaded from the raw directory.\<close>

definition load_all :: "environment \<Rightarrow> files \<Rightarrow> outputs \<Rightarrow> stage" where
  "load_all env raw out =
     run_stages
       [load_seasons env raw,
        load_circuits env out,
        load_constructors env raw,
        load_drivers env out,
        load_races env out,
        load_results env out,
        load_qualifying env out,
        load_pit_stops env out,
        load_standings env out]"

text \<open>
  A loader that touches only the tables \<open>T\<close>, and that runs as before, changing nothing,
  on every database that holds in \<open>T\<close> what it has left there.
\<close>

definition loads_only :: "string set \<Rightarrow> stage \<Rightarrow> bool" where
  "loads_only T st =
     (\<forall>db e db'. st db = (e, db') \<longrightarrow>
        (\<forall>t. t \<notin> T \<longrightarrow> db' t = db t) \<and>
        (\<forall>db2. (\<forall>t \<in> T. db2 t = db' t) \<longrightarrow> st db2 = (e, db2)))"


section \<open>The whole pipeline\<close>

text \<open>
  The state between two runs: the raw directory, the processed directory and the
  database. \<open>run_full_pipeline\<close> extracts, transforms and loads, each unless it is
  skipped; an exception of a step ends the run (\<open>main\<close> prints it and exits), and the
  loader is made, with its connection test, only when the load is not skipped.
\<close>

type_synonym state = "files \<times> outputs \<times> database"

definition run_full_pipeline ::
  "environment \<Rightarrow> pandas \<Rightarrow> server \<Rightarrow> int \<Rightarrow> int \<Rightarrow> bool \<Rightarrow> bool \<Rightarrow> bool \<Rightarrow> state \<Rightarrow>
   (error option \<times> state) option" where
  "run_full_pipeline env pd http start_year end_year skip_extract skip_transform skip_load s =
     (case s of (raw, out, db) \<Rightarrow>
        (case (if skip_extract then Some (None, raw)
               else extract_all env http start_year end_year raw) of
           None \<Rightarrow> None
         | Some (Some e, raw') \<Rightarrow> Some (Some e, (raw', out, db))
         | Some (None, raw') \<Rightarrow>
             (case (if skip_transform then (None, out) else transform_all pd raw' out) of
                (Some e, out') \<Rightarrow> Some (Some e, (raw', out', db))
              | (None, out') \<Rightarrow>
                  (case (if skip_load then (None, db)
                         else (case connect env of
                                 Some e \<Rightarrow> (Some e, db)
                               | None \<Rightarrow> load_all env raw' out' db)) of
                     (e, db') \<Rightarrow> Some (e, (raw', out', db'))))))"


section \<open>Example inputs\<close>

text \<open>A staged results table of two rows, one driver, and the conversions of pandas taken
  as the identity on dates and as knowing no number in text.\<close>

definition results_example :: dataframe where
  "results_example =
     [(''driver_ref'', [Str ''max_verstappen'', Str ''unknown_driver'']),
      (''position'', [Num 1, NaN]),
      (''status'', [Str ''Finished'', Str ''Gearbox''])]"

definition drivers_example :: dataframe where
  "drivers_example = [(''driver_ref'', [Str ''max_verstappen'']), (''driver_id'', [Num 1])]"

definition raw_example :: files where
  "raw_example =
     [''drivers.csv'' \<mapsto> CsvFile 64 (Inr drivers_example) [],
      ''results.csv'' \<mapsto> CsvFile 96 (Inr results_example) [''position'']]"

definition pandas_example :: pandas where
  "pandas_example = \<lparr>text_to_number = (\<lambda>t. None), to_datetime = (\<lambda>c. c)\<rparr>"


definition results_without_status :: dataframe where
  "results_without_status =
     [(''driver_ref'', [Str ''max_verstappen'', Str ''unknown_driver'']),
      (''position'', [Num 1, NaN])]"

definition raw_without_status :: files where
  "raw_without_status =
     [''drivers.csv'' \<mapsto> CsvFile 64 (Inr drivers_example) [],
      ''results.csv'' \<mapsto> CsvFile 96 (Inr results_without_status) [''position'']]"


definition races_example :: dataframe where
  "races_example =
     [(''year'', [Num 2024]), (''round'', [Num 1]), (''race_id'', [Num 202401]),
      (''circuit_ref'', [Str ''bahrain''])]"

definition pit_stops_example :: dataframe where
  "pit_stops_example =
     [(''race_id'', [Num 202401]), (''driver_ref'', [Str ''max_verstappen'']),
      (''duration'', [Num (43 / 2)]), (''milliseconds'', [Num 21500])]"

definition raw_without_qualifying :: files where
  "raw_without_qualifying =
     [''drivers.csv'' \<mapsto> CsvFile 64 (Inr drivers_example) [],
      ''races.csv'' \<mapsto> CsvFile 64 (Inr races_example) [],
      ''results.csv'' \<mapsto> CsvFile 96 (Inr results_example) [''position''],
      ''pit_stops.csv'' \<mapsto> CsvFile 96 (Inr pit_stops_example) [''duration'']]"

definition raw_without_ids :: files where
  "raw_without_ids =
     [''drivers.csv'' \<mapsto> CsvFile 32 (Inr [(''driver_ref'', [Str ''max_verstappen''])]) [],
      ''constructors.csv'' \<mapsto> CsvFile 32 (Inr [(''constructor_ref'', [Str ''red_bull''])]) [],
      ''results.csv'' \<mapsto> CsvFile 64
         (Inr [(''driver_ref'', [Str ''max_verstappen'']),
               (''constructor_ref'', [Str ''red_bull'']),
               (''position'', [Num 1])]) []]"


definition api_results_example :: "(string \<rightharpoonup> string) list" where
  "api_results_example =
     [[''position'' \<mapsto> ''1'', ''status'' \<mapsto> ''Finished''], [''status'' \<mapsto> ''Gearbox'']]"




text \<open>A server with one full page of circuits: the request at offset 0 gives 100 items,
  every other request fails.\<close>

definition circuits_page :: "(string \<times> json) list" where
  "circuits_page =
     [(''MRData'',
       JObj [(''CircuitTable'',
              JObj [(''Circuits'',
                     JArr (replicate 100 (JObj [(''circuitId'', JStr ''monza'')])))])])]"

definition server_example :: server where
  "server_example endpoint limit offset =
     (if offset = 0 then Response circuits_page else RequestException)"








text \<open>One cell of a numeric column through \<open>.fillna(999).astype(int)\<close>.\<close>

definition order_cell :: "cell \<Rightarrow> cell" where
  "order_cell c = (case c of Num q \<Rightarrow> Num (of_int (float64_to_int64 q)) | _ \<Rightarrow> Num 999)"






section \<open>Properties of the table operations\<close>

lemma map_of_set_col:
  "map_of (set_col c s df) c' = (if c' = c then Some s else map_of df c')"
  by (induction df) auto

lemma len_df_set_col:
  "length s = len_df df \<Longrightarrow> len_df (set_col c s df) = len_df df"
  by (cases df) (auto simp: len_df_def)

lemma status_map_range:
  "status_map c = Some v \<Longrightarrow> v \<in> Num ` {1, 2, 3, 4, 5, 11, 12, 13, 14}"
  by (auto simp: status_map_def split: if_splits)


section \<open>Decimal digits\<close>






lemma digits_of_nat_nonempty: "digits_of_nat n \<noteq> []"
  by (subst digits_of_nat.simps) simp

















section \<open>Tables through the result stage\<close>

lemma map_of_set_scalar:
  "map_of (set_scalar c v df) c' = (if c' = c then Some (replicate (len_df df) v) else map_of df c')"
  by (simp add: set_scalar_def map_of_set_col)

lemma set_set_col: "set (set_col c s df) \<subseteq> insert (c, s) (set df)"
  by (induction df) (auto split: if_splits)

lemma wf_df_set_col:
  assumes "wf_df df" and "length s = len_df df"
  shows "wf_df (set_col c s df)"
proof -
  have l: "len_df (set_col c s df) = len_df df"
    using assms(2) by (rule len_df_set_col)
  show ?thesis
    using assms set_set_col [of c s df] unfolding wf_df_def l by fastforce
qed

lemma wf_df_col_length:
  "wf_df df \<Longrightarrow> map_of df c = Some s \<Longrightarrow> length s = len_df df"
  unfolding wf_df_def by (auto dest: map_of_SomeD)

lemma wf_df_set_scalar: "wf_df df \<Longrightarrow> wf_df (set_scalar c v df)"
  by (simp add: set_scalar_def wf_df_set_col)

lemma len_df_set_scalar: "len_df (set_scalar c v df) = len_df df"
  by (simp add: set_scalar_def len_df_set_col)

lemma length_series_map: "length (series_map d s) = length s"
  by (simp add: series_map_def)

lemma length_fillna: "length (fillna v s) = length s"
  by (simp add: fillna_def)

lemma length_to_numeric: "length (to_numeric pd s) = length s"
  by (simp add: to_numeric_def)

lemma map_result_length: "map_result f xs = Inr ys \<Longrightarrow> length ys = length xs"
  by (induction xs arbitrary: ys) (auto simp: and_then_def split: sum.splits)

lemma astype_int_length: "astype_int s = Inr s' \<Longrightarrow> length s' = length s"
  unfolding astype_int_def by (rule map_result_length)

lemma lookup_ids_length:
  assumes "wf_df df" and "lookup_ids ref_df key idc df = Inr ids"
  shows "length ids = len_df df"
  using assms
  by (auto simp: lookup_ids_def and_then_def get_col_def length_series_map wf_df_col_length
      split: sum.splits option.splits)

lemma and_then_Inr:
  "and_then r f = Inr y \<longleftrightarrow> (\<exists>x. r = Inr x \<and> f x = Inr y)"
  by (cases r) (simp_all add: and_then_def)

lemma resolve_col_wf:
  assumes "wf_df df" and "\<And>ids. r = Inr ids \<Longrightarrow> length ids = len_df df"
  shows "wf_df (case r of Inr ids \<Rightarrow> set_col c ids df | Inl e \<Rightarrow> set_scalar c v df)"
proof (cases r)
  case (Inl e)
  show ?thesis unfolding Inl using assms(1) by (simp add: wf_df_set_scalar)
next
  case (Inr ids)
  then have "length ids = len_df df" by (rule assms(2))
  with assms(1) show ?thesis unfolding Inr by (simp add: wf_df_set_col)
qed

lemma resolve_col_len:
  assumes "\<And>ids. r = Inr ids \<Longrightarrow> length ids = len_df df"
  shows "len_df (case r of Inr ids \<Rightarrow> set_col c ids df | Inl e \<Rightarrow> set_scalar c v df) = len_df df"
proof (cases r)
  case (Inl e)
  show ?thesis unfolding Inl by (simp add: len_df_set_scalar)
next
  case (Inr ids)
  then have "length ids = len_df df" by (rule assms)
  then show ?thesis unfolding Inr by (simp add: len_df_set_col)
qed

lemma resolve_col_other:
  assumes "c' \<noteq> c"
  shows "map_of (case r of Inr ids \<Rightarrow> set_col c ids df | Inl e \<Rightarrow> set_scalar c v df) c' = map_of df c'"
  using assms by (cases r) (simp_all add: map_of_set_col map_of_set_scalar)

lemma map_driver_id_props:
  assumes "wf_df df"
  shows "wf_df (map_driver_id fs df)"
    and "len_df (map_driver_id fs df) = len_df df"
    and "c \<noteq> ''driver_id'' \<Longrightarrow> map_of (map_driver_id fs df) c = map_of df c"
proof -
  let ?r = "and_then (read_csv fs ''drivers.csv'') (\<lambda>drivers_df.
             lookup_ids (add_id_if_missing ''driver_id'' drivers_df) ''driver_ref'' ''driver_id'' df)"
  have l: "length ids = len_df df" if "?r = Inr ids" for ids
  proof -
    from that obtain d where
      "lookup_ids (add_id_if_missing ''driver_id'' d) ''driver_ref'' ''driver_id'' df = Inr ids"
      unfolding and_then_Inr by blast
    with assms show ?thesis
      by (rule lookup_ids_length)
  qed
  show "wf_df (map_driver_id fs df)"
    unfolding map_driver_id_def using assms l by (rule resolve_col_wf)
  show "len_df (map_driver_id fs df) = len_df df"
    unfolding map_driver_id_def using l by (rule resolve_col_len)
  show "map_of (map_driver_id fs df) c = map_of df c" if "c \<noteq> ''driver_id''"
    unfolding map_driver_id_def using that by (rule resolve_col_other)
qed

lemma map_constructor_id_props:
  assumes "wf_df df"
  shows "wf_df (map_constructor_id fs df)"
    and "len_df (map_constructor_id fs df) = len_df df"
    and "c \<noteq> ''constructor_id'' \<Longrightarrow> map_of (map_constructor_id fs df) c = map_of df c"
proof -
  let ?r = "and_then (read_csv fs ''constructors.csv'') (\<lambda>constructors_df.
             lookup_ids constructors_df ''constructor_ref'' ''constructor_id'' df)"
  have l: "length ids = len_df df" if "?r = Inr ids" for ids
  proof -
    from that obtain d where
      "lookup_ids d ''constructor_ref'' ''constructor_id'' df = Inr ids"
      unfolding and_then_Inr by blast
    with assms show ?thesis
      by (rule lookup_ids_length)
  qed
  show "wf_df (map_constructor_id fs df)"
    unfolding map_constructor_id_def using assms l by (rule resolve_col_wf)
  show "len_df (map_constructor_id fs df) = len_df df"
    unfolding map_constructor_id_def using l by (rule resolve_col_len)
  show "map_of (map_constructor_id fs df) c = map_of df c" if "c \<noteq> ''constructor_id''"
    unfolding map_constructor_id_def using that by (rule resolve_col_other)
qed

lemma coerce_position_props:
  assumes "wf_df df"
  shows "wf_df (coerce_position pd df)"
    and "len_df (coerce_position pd df) = len_df df"
    and "c \<noteq> ''position'' \<Longrightarrow> map_of (coerce_position pd df) c = map_of df c"
    and "map_of (coerce_position pd df) ''position'' = map_option (to_numeric pd) (map_of df ''position'')"
proof -
  show "wf_df (coerce_position pd df)"
  proof (cases "map_of df ''position''")
    case None
    with assms show ?thesis by (simp add: coerce_position_def)
  next
    case (Some p)
    then have "length (to_numeric pd p) = len_df df"
      using wf_df_col_length [OF assms Some] by (simp add: length_to_numeric)
    with assms Some show ?thesis by (simp add: coerce_position_def wf_df_set_col)
  qed
  show "len_df (coerce_position pd df) = len_df df"
  proof (cases "map_of df ''position''")
    case None
    then show ?thesis by (simp add: coerce_position_def)
  next
    case (Some p)
    then have "length (to_numeric pd p) = len_df df"
      using wf_df_col_length [OF assms Some] by (simp add: length_to_numeric)
    with Some show ?thesis by (simp add: coerce_position_def len_df_set_col)
  qed
  show "map_of (coerce_position pd df) c = map_of df c" if "c \<noteq> ''position''"
    using that by (cases "map_of df ''position''") (simp_all add: coerce_position_def map_of_set_col)
  show "map_of (coerce_position pd df) ''position'' = map_option (to_numeric pd) (map_of df ''position'')"
    by (cases "map_of df ''position''") (simp_all add: coerce_position_def map_of_set_col)
qed

lemma fillna_int_cols_props:
  assumes "wf_df df" and "fillna_int_cols cs df = Inr df'"
  shows "wf_df df' \<and> len_df df' = len_df df \<and> (\<forall>c. c \<notin> set cs \<longrightarrow> map_of df' c = map_of df c)"
  using assms
proof (induction cs arbitrary: df)
  case Nil
  then show ?case by simp
next
  case (Cons a cs)
  show ?case
  proof (cases "map_of df a")
    case None
    with Cons.prems have "fillna_int_cols cs df = Inr df'"
      by simp
    with Cons.IH [OF Cons.prems(1)] show ?thesis
      by simp
  next
    case (Some s)
    with Cons.prems(2) have "and_then (astype_int (fillna (Num 0) s))
        (\<lambda>s'. fillna_int_cols cs (set_col a s' df)) = Inr df'"
      by simp
    then obtain s' where s': "astype_int (fillna (Num 0) s) = Inr s'"
      and r: "fillna_int_cols cs (set_col a s' df) = Inr df'"
      unfolding and_then_Inr by blast
    have len: "length s' = len_df df"
      using astype_int_length [OF s'] wf_df_col_length [OF Cons.prems(1) Some]
      by (simp add: length_fillna)
    have w: "wf_df (set_col a s' df)"
      using Cons.prems(1) len by (rule wf_df_set_col)
    have l2: "len_df (set_col a s' df) = len_df df"
      using len by (rule len_df_set_col)
    from Cons.IH [OF w r] show ?thesis
      unfolding l2 by (simp add: map_of_set_col)
  qed
qed

lemma results_milliseconds_props:
  assumes "wf_df df" and "results_milliseconds pd df = Inr df'"
  shows "wf_df df' \<and> len_df df' = len_df df \<and>
         (\<forall>c. c \<noteq> ''milliseconds'' \<longrightarrow> map_of df' c = map_of df c)"
proof (cases "map_of df ''milliseconds''")
  case None
  with assms(2) have "df' = set_scalar ''milliseconds'' (Num 0) df"
    by (simp add: results_milliseconds_def)
  with assms(1) show ?thesis
    by (simp add: wf_df_set_scalar len_df_set_scalar map_of_set_scalar)
next
  case (Some m)
  with assms(2) have "and_then (astype_int (fillna (Num 0) (to_numeric pd m)))
      (\<lambda>m'. Inr (set_col ''milliseconds'' m' df)) = Inr df'"
    by (simp add: results_milliseconds_def)
  then obtain m' where m': "astype_int (fillna (Num 0) (to_numeric pd m)) = Inr m'"
    and d: "df' = set_col ''milliseconds'' m' df"
    unfolding and_then_Inr by auto
  have len: "length m' = len_df df"
    using astype_int_length [OF m'] wf_df_col_length [OF assms(1) Some]
    by (simp add: length_fillna length_to_numeric)
  show ?thesis
    unfolding d using assms(1) len by (simp add: wf_df_set_col len_df_set_col map_of_set_col)
qed

lemma map_status_props:
  assumes "wf_df df"
  shows "wf_df (map_status df)"
    and "len_df (map_status df) = len_df df"
    and "c \<noteq> ''status_id'' \<Longrightarrow> map_of (map_status df) c = map_of df c"
    and "map_of (map_status df) ''status_id'' =
           Some (case map_of df ''status'' of
                   Some col \<Rightarrow> fillna (Num 14) (series_map status_map col)
                 | None \<Rightarrow> replicate (len_df df) (Num 1))"
proof -
  have len: "length (fillna (Num 14) (series_map status_map col)) = len_df df"
    if "map_of df ''status'' = Some col" for col
    using wf_df_col_length [OF assms that] by (simp add: length_fillna length_series_map)
  show "wf_df (map_status df)"
    using assms len
    by (cases "map_of df ''status''") (simp_all add: map_status_def wf_df_set_scalar wf_df_set_col)
  show "len_df (map_status df) = len_df df"
    using len
    by (cases "map_of df ''status''") (simp_all add: map_status_def len_df_set_scalar len_df_set_col)
  show "map_of (map_status df) c = map_of df c" if "c \<noteq> ''status_id''"
    using that
    by (cases "map_of df ''status''") (simp_all add: map_status_def map_of_set_scalar map_of_set_col)
  show "map_of (map_status df) ''status_id'' =
           Some (case map_of df ''status'' of
                   Some col \<Rightarrow> fillna (Num 14) (series_map status_map col)
                 | None \<Rightarrow> replicate (len_df df) (Num 1))"
    by (cases "map_of df ''status''") (simp_all add: map_status_def map_of_set_scalar map_of_set_col)
qed

lemma fill_position_order_props:
  assumes "fill_position_order pd df = Inr df'"
  shows "\<exists>src po'. (if has_col ''position_order'' df then map_of df ''position_order'' = Some src
                     else \<exists>p. map_of df ''position'' = Some p \<and> src = fillna (Num 999) p) \<and>
           astype_int (fillna (Num 999) (to_numeric pd src)) = Inr po' \<and>
           map_of df' ''position_order'' = Some po' \<and>
           (\<forall>c. c \<noteq> ''position_order'' \<longrightarrow> map_of df' c = map_of df c)"
proof -
  from assms obtain df1 po po' where
    d1: "(if has_col ''position_order'' df then Inr df
          else and_then (get_col df ''position'')
                 (\<lambda>p. Inr (set_col ''position_order'' (fillna (Num 999) p) df))) = Inr df1"
    and g: "get_col df1 ''position_order'' = Inr po"
    and a: "astype_int (fillna (Num 999) (to_numeric pd po)) = Inr po'"
    and d': "df' = set_col ''position_order'' po' df1"
    unfolding fill_position_order_def and_then_Inr by auto
  from g have g': "map_of df1 ''position_order'' = Some po"
    by (simp add: get_col_def split: option.splits)
  show ?thesis
  proof (cases "has_col ''position_order'' df")
    case True
    with d1 have "df1 = df" by simp
    with True g' a d' show ?thesis
      by (intro exI [of _ po] exI [of _ po']) (simp add: map_of_set_col)
  next
    case False
    with d1 obtain p where p: "get_col df ''position'' = Inr p"
      and e: "df1 = set_col ''position_order'' (fillna (Num 999) p) df"
      by (auto simp: and_then_Inr)
    from p have p': "map_of df ''position'' = Some p"
      by (simp add: get_col_def split: option.splits)
    from g' e have "po = fillna (Num 999) p"
      by (simp add: map_of_set_col)
    with False p' a d' e show ?thesis
      by (intro exI [of _ po] exI [of _ po']) (simp add: map_of_set_col)
  qed
qed

lemma status_map_unfold:
  "status_map c =
     (if c = Str ''Engine'' then Some (Num 5)
      else if c = Str ''Collision'' then Some (Num 4)
      else if c = Str ''Accident'' then Some (Num 3)
      else if c = Str ''Disqualified'' then Some (Num 2)
      else if c = Str ''Retired'' then Some (Num 14)
      else if c = Str ''+3 Laps'' then Some (Num 13)
      else if c = Str ''+2 Laps'' then Some (Num 12)
      else if c = Str ''+1 Lap'' then Some (Num 11)
      else if c = Str ''Finished'' then Some (Num 1)
      else None)"
  by (simp add: status_map_def)

lemma status_map_known:
  "status_map (Str ''Finished'') = Some (Num 1)"
  "status_map (Str ''Disqualified'') = Some (Num 2)"
  "status_map (Str ''Accident'') = Some (Num 3)"
  "status_map (Str ''Collision'') = Some (Num 4)"
  "status_map (Str ''Engine'') = Some (Num 5)"
  "status_map (Str ''+1 Lap'') = Some (Num 11)"
  "status_map (Str ''+2 Laps'') = Some (Num 12)"
  "status_map (Str ''+3 Laps'') = Some (Num 13)"
  "status_map (Str ''Retired'') = Some (Num 14)"
  by (simp_all add: status_map_def)

lemma status_map_other:
  assumes "c \<noteq> Str ''Finished''" "c \<noteq> Str ''Disqualified''" "c \<noteq> Str ''Accident''"
    "c \<noteq> Str ''Collision''" "c \<noteq> Str ''Engine''" "c \<noteq> Str ''+1 Lap''" "c \<noteq> Str ''+2 Laps''"
    "c \<noteq> Str ''+3 Laps''" "c \<noteq> Str ''Retired''"
  shows "status_map c = None"
  using assms by (simp only: status_map_unfold if_False)

lemma status_id_nth:
  assumes "i < length col"
  shows "fillna (Num 14) (series_map status_map col) ! i =
         (case status_map (col ! i) of None \<Rightarrow> Num 14 | Some v \<Rightarrow> v)"
proof (cases "status_map (col ! i)")
  case None
  with assms show ?thesis
    by (simp add: fillna_def series_map_def)
next
  case (Some v)
  then have "v \<noteq> NaN"
    using status_map_range [of "col ! i" v] by auto
  with Some assms show ?thesis
    by (simp add: fillna_def series_map_def)
qed

lemma status_id_range:
  "(case status_map c of None \<Rightarrow> Num 14 | Some v \<Rightarrow> v) \<in> Num ` {1, 2, 3, 4, 5, 11, 12, 13, 14}"
proof (cases "status_map c")
  case None
  then show ?thesis by simp
next
  case (Some v)
  then show ?thesis
    using status_map_range [of c v] by simp
qed

lemma results_body_steps:
  assumes "results_body pd fs df = Inr clean"
  obtains df1 df2 where
    "fillna_int_cols
       [''points'', ''laps'', ''grid'', ''number'', ''fastest_lap'', ''fastest_lap_rank'']
       (coerce_position pd (map_constructor_id fs (map_driver_id fs df))) = Inr df1"
    and "results_milliseconds pd df1 = Inr df2"
    and "fill_position_order pd (map_status df2) = Inr clean"
  using assms unfolding results_body_def and_then_Inr by blast

lemma transform_results_written:
  assumes "\<not> missing_or_small fs ''results.csv''"
    and "read_csv fs ''results.csv'' = Inr df"
    and "transform_results pd fs out = (None, out')"
  obtains clean where "results_body pd fs df = Inr clean"
    and "out' = out(''results_clean.csv'' \<mapsto> clean)"
proof (cases "results_body pd fs df")
  case (Inl e)
  with assms have False
    by (simp add: transform_results_def write_or_raise_def and_then_def)
  then show ?thesis ..
next
  case (Inr clean)
  with assms have "out' = out(''results_clean.csv'' \<mapsto> clean)"
    by (simp add: transform_results_def write_or_raise_def and_then_def to_csv_def)
  with Inr that show ?thesis
    by blast
qed


section \<open>The result stage as a whole\<close>

lemma results_body_status:
  assumes "wf_df df" and "results_body pd fs df = Inr clean"
  shows "map_of clean ''status_id'' =
           Some (case map_of df ''status'' of
                   Some col \<Rightarrow> fillna (Num 14) (series_map status_map col)
                 | None \<Rightarrow> replicate (len_df df) (Num 1))"
proof -
  let ?a = "map_driver_id fs df"
  let ?b = "map_constructor_id fs ?a"
  let ?c = "coerce_position pd ?b"
  from assms(2) obtain df1 df2 where
    s1: "fillna_int_cols
       [''points'', ''laps'', ''grid'', ''number'', ''fastest_lap'', ''fastest_lap_rank''] ?c = Inr df1"
    and s2: "results_milliseconds pd df1 = Inr df2"
    and s3: "fill_position_order pd (map_status df2) = Inr clean"
    by (rule results_body_steps)
  have wa: "wf_df ?a" and la: "len_df ?a = len_df df"
    and sa: "map_of ?a ''status'' = map_of df ''status''"
    using map_driver_id_props [OF assms(1)] by simp_all
  have wb: "wf_df ?b" and lb: "len_df ?b = len_df df"
    and sb: "map_of ?b ''status'' = map_of df ''status''"
    using map_constructor_id_props [OF wa] la sa by simp_all
  have wc: "wf_df ?c" and lc: "len_df ?c = len_df df"
    and sc: "map_of ?c ''status'' = map_of df ''status''"
    using coerce_position_props [OF wb] lb sb by simp_all
  have w1: "wf_df df1" and l1: "len_df df1 = len_df df"
    and t1: "map_of df1 ''status'' = map_of df ''status''"
    using fillna_int_cols_props [OF wc s1] lc sc by simp_all
  have w2: "wf_df df2" and l2: "len_df df2 = len_df df"
    and t2: "map_of df2 ''status'' = map_of df ''status''"
    using results_milliseconds_props [OF w1 s2] l1 t1 by simp_all
  have "map_of clean ''status_id'' = map_of (map_status df2) ''status_id''"
    using fill_position_order_props [OF s3] by auto
  then show ?thesis
    unfolding map_status_props(4) [OF w2] t2 l2 .
qed


lemmas eval_defs =
  transform_results_def missing_or_small_def write_or_raise_def results_body_def
  map_driver_id_def map_constructor_id_def read_csv_def and_then_def
  lookup_ids_def add_id_if_missing_def has_col_def get_col_def dict_zip_def series_map_def
  coerce_position_def to_numeric_def results_milliseconds_def set_scalar_def len_df_def
  map_status_def fill_position_order_def fillna_def astype_int_def int_of_cell_def
  is_text_def float64_to_int64_def int64_def toward_zero_def to_csv_def status_map_def

lemma transform_results_example:
  "transform_results pandas_example raw_example Map.empty =
     (None, [''results_clean.csv'' \<mapsto>
        [(''driver_ref'', [Str ''max_verstappen'', Str ''unknown_driver'']),
         (''position'', [Num 1, NaN]),
         (''status'', [Str ''Finished'', Str ''Gearbox'']),
         (''driver_id'', [Num 1, NaN]),
         (''constructor_id'', [Num 0, Num 0]),
         (''milliseconds'', [Num 0, Num 0]),
         (''status_id'', [Num 1, Num 14]),
         (''position_order'', [Num 1, Num 999])]])"
  by (simp add: eval_defs raw_example_def results_example_def drivers_example_def pandas_example_def)


lemma transform_results_without_status:
  "transform_results pandas_example raw_without_status Map.empty =
     (None, [''results_clean.csv'' \<mapsto>
        [(''driver_ref'', [Str ''max_verstappen'', Str ''unknown_driver'']),
         (''position'', [Num 1, NaN]),
         (''driver_id'', [Num 1, NaN]),
         (''constructor_id'', [Num 0, Num 0]),
         (''milliseconds'', [Num 0, Num 0]),
         (''status_id'', [Num 1, Num 1]),
         (''position_order'', [Num 1, Num 999])]])"
  by (simp add: eval_defs raw_without_status_def results_without_status_def drivers_example_def
      pandas_example_def)


lemmas stage_defs =
  transform_all_def transform_circuits_def transform_drivers_def transform_races_def
  transform_qualifying_def transform_pit_stops_def transform_standings_def
  transform_standings_of_def drivers_body_def races_body_def circuits_body_def
  map_circuit_id_def select_cols_def


section \<open>The pagination loop\<close>


lemma fetch_pages_Stop:
  "turn offset = Stop \<Longrightarrow> fetch_pages turn limit offset acc = Some (Inr acc)"
  by (subst fetch_pages.simps) simp

lemma fetch_pages_Last:
  "turn offset = Last rows \<Longrightarrow> fetch_pages turn limit offset acc = Some (Inr (acc @ rows))"
  by (subst fetch_pages.simps) simp

lemma fetch_pages_Raise:
  "turn offset = Raise e \<Longrightarrow> fetch_pages turn limit offset acc = Some (Inl e)"
  by (subst fetch_pages.simps) simp







lemma page_turn_cases:
  "page_turn http endpoint table_name make_row limit offset =
     (case http endpoint limit offset of
        RequestException \<Rightarrow> Stop
      | Response data \<Rightarrow>
          if data = [] then Stop
          else (case extract_table data table_name of
                  Inl e \<Rightarrow> Raise e
                | Inr page \<Rightarrow>
                    if \<not> truthy page then Stop
                    else (case iterate page of
                            Inl e \<Rightarrow> Raise e
                          | Inr items \<Rightarrow>
                              (case map_result make_row items of
                                 Inl e \<Rightarrow> Raise e
                               | Inr rows \<Rightarrow>
                                   if length items < limit then Last rows else More rows))))"
  by (cases "http endpoint limit offset") (simp_all add: page_turn_def make_request_def)

lemma page_turn_More_length:
  assumes "page_turn http endpoint table_name make_row limit offset = More rows"
  shows "limit \<le> length rows"
proof -
  from assms obtain items where "map_result make_row items = Inr rows"
    and "\<not> length items < limit"
    unfolding page_turn_cases
    by (auto split: http_result.splits if_splits sum.splits)
  then show ?thesis
    using map_result_length [of make_row items rows] by simp
qed

lemma page_turn_Last_length:
  assumes "page_turn http endpoint table_name make_row limit offset = Last rows"
  shows "length rows < limit"
proof -
  from assms obtain items where "map_result make_row items = Inr rows"
    and "length items < limit"
    unfolding page_turn_cases
    by (auto split: http_result.splits if_splits sum.splits)
  then show ?thesis
    using map_result_length [of make_row items rows] by simp
qed


lemma map_result_Inr: "map_result Inr xs = (Inr xs :: error + 'a list)"
  by (induction xs) (simp_all add: and_then_def)







lemma page_turn_example:
  "page_turn server_example ''circuits'' ''CircuitsTable'' Inr 100 0 =
     More (replicate 100 (JObj [(''circuitId'', JStr ''monza'')]))"
  by (simp add: page_turn_def make_request_def server_example_def circuits_page_def
      extract_table_def truthy_def endswith_def is_list_def iterate_def map_result_Inr)


section \<open>Rounding to a double\<close>

text \<open>The binary exponent is the one the rounding needs, and a value with a nearest
  multiple of the unit rounds to it.\<close>

lemma pow2_power_int: "pow2 e = power_int 2 e"
  by (simp add: pow2_def power_int_def inverse_eq_divide power_divide)

lemma pow2_pos: "0 < pow2 e"
  by (simp add: pow2_power_int)

lemma pow2_mono: "a \<le> b \<Longrightarrow> pow2 a \<le> pow2 b"
  by (simp add: pow2_power_int power_int_increasing)

lemma pow2_add: "pow2 (a + b) = pow2 a * pow2 b"
  by (simp add: pow2_power_int power_int_add)

lemma pow2_of_nat: "pow2 (int n) = 2 ^ n"
  by (simp add: pow2_def)

lemma bitlen_pow2:
  assumes "0 < p"
  shows "pow2 (bitlen p - 1) \<le> of_int p" and "of_int p < pow2 (bitlen p)"
proof -
  from assms have b: "2 ^ nat (bitlen p - 1) \<le> p" "p < 2 ^ nat (bitlen p)"
    using bitlen_bounds [of p] by simp_all
  from assms have pos: "0 < bitlen p"
    using bitlen_nonneg [of p] bitlen_eq_zero_iff [of p] by simp
  have "pow2 (bitlen p - 1) = of_int (2 ^ nat (bitlen p - 1))"
    using pos by (simp add: pow2_def)
  also have "\<dots> \<le> of_int p"
    using b(1) by (simp only: of_int_le_iff)
  finally show "pow2 (bitlen p - 1) \<le> of_int p" .
  have "(of_int p :: rat) < of_int (2 ^ nat (bitlen p))"
    using b(2) by (simp only: of_int_less_iff)
  also have "\<dots> = pow2 (bitlen p)"
    using pos by (simp add: pow2_def)
  finally show "of_int p < pow2 (bitlen p)" .
qed

lemma binary_exponent_bounds:
  assumes "0 < x"
  shows "pow2 (binary_exponent x) \<le> x \<and> x < pow2 (binary_exponent x + 1)"
proof -
  obtain p q where pq: "quotient_of x = (p, q)"
    by (cases "quotient_of x")
  then have q: "0 < q" and x: "x = of_int p / of_int q"
    by (simp_all add: quotient_of_denom_pos quotient_of_div)
  from assms x q have p: "0 < p"
    by (simp add: zero_less_divide_iff)
  define e where "e = bitlen p - bitlen q"
  have qr: "(0::rat) < of_int q"
    using q by simp
  have "x < pow2 (bitlen p) / pow2 (bitlen q - 1)"
    unfolding x
    using bitlen_pow2(2) [OF p] bitlen_pow2(1) [OF q] p pow2_pos [of "bitlen q - 1"]
    by (intro frac_less) simp_all
  also have "\<dots> = pow2 (e + 1)"
    using pow2_add [of "e + 1" "bitlen q - 1"] pow2_pos [of "bitlen q - 1"]
    by (simp add: e_def field_simps)
  finally have up: "x < pow2 (e + 1)" .
  have "pow2 (e - 1) = pow2 (bitlen p - 1) / pow2 (bitlen q)"
    using pow2_add [of "e - 1" "bitlen q"] pow2_pos [of "bitlen q"]
    by (simp add: e_def field_simps)
  also have "\<dots> \<le> x"
    unfolding x
    using bitlen_pow2(1) [OF p] less_imp_le [OF bitlen_pow2(2) [OF q]] qr p
    by (intro frac_le) simp_all
  finally have low: "pow2 (e - 1) \<le> x" .
  have be: "binary_exponent x = (if pow2 e \<le> x then e else e - 1)"
    by (simp add: binary_exponent_def pq e_def Let_def)
  show ?thesis
  proof (cases "pow2 e \<le> x")
    case True
    with up show ?thesis by (simp add: be)
  next
    case False
    with low show ?thesis by (simp add: be)
  qed
qed

lemma binary_exponent_unique:
  assumes "pow2 e \<le> x" and "x < pow2 (e + 1)"
  shows "binary_exponent x = e"
proof -
  have "0 < x"
    using assms(1) pow2_pos [of e] by simp
  from binary_exponent_bounds [OF this]
  have b: "pow2 (binary_exponent x) \<le> x" "x < pow2 (binary_exponent x + 1)"
    by simp_all
  have "\<not> binary_exponent x < e"
  proof
    assume "binary_exponent x < e"
    then have "pow2 (binary_exponent x + 1) \<le> pow2 e"
      by (intro pow2_mono) simp
    with b(2) assms(1) show False by simp
  qed
  moreover have "\<not> e < binary_exponent x"
  proof
    assume "e < binary_exponent x"
    then have "pow2 (e + 1) \<le> pow2 (binary_exponent x)"
      by (intro pow2_mono) simp
    with b(1) assms(2) show False by simp
  qed
  ultimately show ?thesis by simp
qed

lemma round_half_even_near:
  assumes "of_int n - 1 / 2 < x" and "x < of_int n + 1 / 2"
  shows "round_half_even x = n"
proof (cases "of_int n \<le> x")
  case True
  with assms(2) have "\<lfloor>x\<rfloor> = n"
    by (intro floor_unique) simp_all
  with assms(2) show ?thesis
    by (simp add: round_half_even_def Let_def)
next
  case False
  with assms(1) have "\<lfloor>x\<rfloor> = n - 1"
    by (intro floor_unique) simp_all
  with assms(1) False show ?thesis
    by (simp add: round_half_even_def Let_def)
qed

lemma round_float64_normal:
  assumes "pow2 e \<le> x" and "x < pow2 (e + 1)" and "- 1022 \<le> e"
    and "of_int n - 1 / 2 < x / pow2 (e - 52)" and "x / pow2 (e - 52) < of_int n + 1 / 2"
    and "\<bar>of_int n * pow2 (e - 52)\<bar> < pow2 1024"
  shows "round_float64 x = Finite (of_int n * pow2 (e - 52))"
proof -
  have pos: "0 < x"
    using assms(1) pow2_pos [of e] by simp
  then have "binary_exponent \<bar>x\<bar> = e"
    using binary_exponent_unique [OF assms(1,2)] by simp
  with pos assms(3,6) round_half_even_near [OF assms(4,5)] show ?thesis
    by (simp add: round_float64_def Let_def max_def)
qed

lemma float_32001: "round_float64 (32001 / 1000) = Finite (4503740364858851 / 140737488355328)"
  using round_float64_normal [of 5 "32001 / 1000" 4503740364858851]
  by (simp add: pow2_def)

lemma float_32001_times_1000:
  "fmul (Finite (4503740364858851 / 140737488355328)) (Finite 1000) =
   Finite (8796367900114943 / 274877906944)"
  using round_float64_normal [of 14 "4503740364858851 / 140737488355328 * 1000" 8796367900114943]
  by (simp add: fmul_def pow2_def)

lemma toward_zero_between:
  assumes "0 \<le> q" and "of_int n \<le> q" and "q < of_int n + 1"
  shows "toward_zero q = n"
proof -
  from assms(2,3) have "\<lfloor>q\<rfloor> = n"
    by (rule floor_unique)
  with assms(1) show ?thesis
    by (simp add: toward_zero_def)
qed

lemma toward_zero_32001: "toward_zero (8796367900114943 / 274877906944) = 32000"
  by (rule toward_zero_between) simp_all

lemmas float_defs =
  py_float_def strip_def is_space_def abs_float_value_def lower_def
  float_number_def digitpart_def is_digit_def exponent_part_def decimal_value_def
  digits_value_def digit_val_def pow10_def

lemma py_float_32001:
  "py_float ''32.001'' = Inr (Finite (4503740364858851 / 140737488355328))"
proof -
  have "py_float ''32.001'' = Inr (round_float64 (32001 / 1000))"
    by (simp add: float_defs)
  then show ?thesis
    by (simp only: float_32001)
qed

lemma float_215: "round_float64 (43 / 2) = Finite (43 / 2)"
  using round_float64_normal [of 4 "43 / 2" 6051711999279104]
  by (simp add: pow2_def)

lemma float_215_times_1000: "fmul (Finite (43 / 2)) (Finite 1000) = Finite 21500"
  using round_float64_normal [of 14 "43 / 2 * 1000" 5909874999296000]
  by (simp add: fmul_def pow2_def)

lemma py_float_215: "py_float ''21.5'' = Inr (Finite (43 / 2))"
proof -
  have "py_float ''21.5'' = Inr (round_float64 (43 / 2))"
    by (simp add: float_defs)
  then show ?thesis
    by (simp only: float_215)
qed


section \<open>Running the normalization again\<close>

text \<open>Every stage only adds files to the outputs, and which files and which tables does
  not depend on the outputs it finds: a second run over the outputs of the first changes
  nothing.\<close>

lemma write_or_raise_overwrites:
  "\<exists>e W. \<forall>out. write_or_raise path r out = (e, out ++ W)"
proof (cases r)
  case (Inl err)
  then have "\<forall>out. write_or_raise path r out = (Some err, out ++ Map.empty)"
    by (simp add: write_or_raise_def)
  then show ?thesis by blast
next
  case (Inr df)
  then have "\<forall>out. write_or_raise path r out = (None, out ++ [path \<mapsto> df])"
    by (simp add: write_or_raise_def to_csv_def)
  then show ?thesis by blast
qed

lemma to_csv_overwrites: "\<exists>e W. \<forall>out. (None, to_csv path df out) = (e, out ++ W)"
proof -
  have "\<forall>out. (None, to_csv path df out) = (None :: error option, out ++ [path \<mapsto> df])"
    by (simp add: to_csv_def)
  then show ?thesis by blast
qed

lemma keep_overwrites: "\<exists>e W. \<forall>out :: outputs. (x, out) = (e, out ++ W)"
proof -
  have "\<forall>out :: outputs. (x, out) = (x, out ++ Map.empty)"
    by simp
  then show ?thesis by blast
qed

lemma guarded_overwrites:
  "\<exists>e W. \<forall>out. (if b then (None, to_csv path [] out) else write_or_raise path r out) =
     (e, out ++ W)"
proof (cases b)
  case True
  then show ?thesis
    using to_csv_overwrites [of path "[]"] by simp
next
  case False
  then show ?thesis
    using write_or_raise_overwrites [of path r] by simp
qed

lemma map_add_twice: "out ++ W ++ W = out ++ W"
  by (rule ext) (simp add: map_add_def split: option.split)

lemma run_stages_overwrites:
  assumes "\<forall>st \<in> set sts. \<exists>e W. \<forall>out. st out = (e, out ++ W)"
  shows "\<exists>e W. \<forall>out. run_stages sts out = (e, out ++ W)"
  using assms
proof (induction sts)
  case Nil
  have "\<forall>out. run_stages [] out = (None, out ++ Map.empty)"
    by simp
  then show ?case by blast
next
  case (Cons st sts)
  from Cons.prems obtain e W where st: "\<forall>out. st out = (e, out ++ W)"
    by auto
  from Cons obtain e' W' where sts: "\<forall>out. run_stages sts out = (e', out ++ W')"
    by auto
  show ?case
  proof (cases e)
    case None
    with st sts have "\<forall>out. run_stages (st # sts) out = (e', out ++ (W ++ W'))"
      by simp
    then show ?thesis by blast
  next
    case (Some err)
    with st have "\<forall>out. run_stages (st # sts) out = (Some err, out ++ W)"
      by simp
    then show ?thesis by blast
  qed
qed

lemma transform_standings_of_overwrites:
  "\<exists>e W. \<forall>out. transform_standings_of resolve raw_name clean_name fs out = (e, out ++ W)"
proof (cases "if missing_or_small fs raw_name then Inr [] else read_csv fs raw_name")
  case (Inl err)
  then have "\<forall>out. transform_standings_of resolve raw_name clean_name fs out =
               (Some err, out ++ Map.empty)"
    by (simp add: transform_standings_of_def)
  then show ?thesis by blast
next
  case (Inr df)
  show ?thesis
  proof (cases "df_empty df")
    case True
    with Inr have "\<forall>out. transform_standings_of resolve raw_name clean_name fs out =
               (None, out ++ Map.empty)"
      by (simp add: transform_standings_of_def)
    then show ?thesis by blast
  next
    case False
    with Inr have "transform_standings_of resolve raw_name clean_name fs =
                   write_or_raise clean_name (standings_body (resolve fs df))"
      by (simp add: transform_standings_of_def fun_eq_iff)
    then show ?thesis
      using write_or_raise_overwrites by simp
  qed
qed

lemma transform_all_overwrites:
  "\<exists>e W. \<forall>out. transform_all pd fs out = (e, out ++ W)"
  unfolding transform_all_def
proof (rule run_stages_overwrites, simp, intro conjI)
  show "\<exists>e W. \<forall>out. transform_circuits fs out = (e, out ++ W)"
    unfolding transform_circuits_def by (rule guarded_overwrites)
  show "\<exists>e W. \<forall>out. transform_drivers pd fs out = (e, out ++ W)"
    using write_or_raise_overwrites by (simp add: transform_drivers_def)
  show "\<exists>e W. \<forall>out. transform_races pd fs out = (e, out ++ W)"
    using write_or_raise_overwrites by (simp add: transform_races_def)
  show "\<exists>e W. \<forall>out. transform_results pd fs out = (e, out ++ W)"
    unfolding transform_results_def by (rule guarded_overwrites)
  show "\<exists>e W. \<forall>out. transform_qualifying pd fs out = (e, out ++ W)"
    using write_or_raise_overwrites by (simp add: transform_qualifying_def)
  show "\<exists>e W. \<forall>out. transform_pit_stops pd fs out = (e, out ++ W)"
    unfolding transform_pit_stops_def by (rule guarded_overwrites)
  show "\<exists>e W. \<forall>out. transform_standings fs out = (e, out ++ W)"
    unfolding transform_standings_def
    by (rule run_stages_overwrites) (simp add: transform_standings_of_overwrites)
qed

lemma transform_all_rerun:
  "transform_all pd fs (snd (transform_all pd fs out)) = transform_all pd fs out"
proof -
  obtain e W where "\<forall>out. transform_all pd fs out = (e, out ++ W)"
    using transform_all_overwrites by blast
  then show ?thesis by (simp add: map_add_twice)
qed


section \<open>Pages of the API\<close>





lemma page_turn_Raise_iff:
  "page_turn http endpoint table_name make_row limit offset = Raise e \<longleftrightarrow>
     (\<exists>data. http endpoint limit offset = Response data \<and> data \<noteq> [] \<and>
        (extract_table data table_name = Inl e \<or>
         (\<exists>page. extract_table data table_name = Inr page \<and> truthy page \<and>
            (iterate page = Inl e \<or>
             (\<exists>items. iterate page = Inr items \<and> map_result make_row items = Inl e)))))"
  unfolding page_turn_cases
  by (auto split: http_result.splits if_splits sum.splits)

lemma concat_rows_Suc:
  "concat (map rows [0..<Suc k]) = concat (map rows [0..<k]) @ rows k"
  by simp




section \<open>The race id of a staged race\<close>
















lemma float64_to_int64_of_int: "int64 n \<Longrightarrow> float64_to_int64 (of_int n) = n"
  by (simp add: float64_to_int64_def toward_zero_def)







section \<open>The finishing order of a result\<close>





lemma float64_999: "float64_to_int64 999 = 999"
  using float64_to_int64_of_int [of 999] by (simp add: int64_def)



lemma order_cell_filled: "map order_cell (fillna (Num 999) s) = map order_cell s"
  by (induction s) (simp_all add: fillna_def order_cell_def float64_999)
















lemma py_int_one: "py_int ''1'' = Some 1"
  by (simp add: py_int_def strip_def is_space_def parse_signed_def parse_nat_def is_digit_def
      digit_val_def max_str_digits_def)

lemma isdigit_one: "isdigit ''1''"
  by (simp add: isdigit_def isdigit_char_def is_digit_def)

lemma isdigit_empty: "\<not> isdigit []"
  by (simp add: isdigit_def)

lemma api_results_example_position:
  "map_result result_position api_results_example = Inr [Num 1, NaN]"
  by (simp add: api_results_example_def result_position_def dict_get_def and_then_def
      int_of_text_def isdigit_one isdigit_empty py_int_one)

lemma api_results_example_position_order:
  "map_result result_position_order api_results_example = Inr [Num 1, Num 999]"
  by (simp add: api_results_example_def result_position_order_def dict_get_def and_then_def
      int_of_text_def isdigit_one isdigit_empty py_int_one)





section \<open>Running the pipeline again\<close>

text \<open>What an extractor writes does not depend on the raw directory it finds.\<close>

lemma write_raw_add: "write_raw env path df raw = raw ++ [path \<mapsto> written env df]"
  by (simp add: write_raw_def)

lemma stage_rows_overwrites:
  "(\<forall>raw. stage_rows env path r raw = None) \<or>
   (\<exists>e W. \<forall>raw. stage_rows env path r raw = Some (e, raw ++ W))"
proof (cases r)
  case None
  then show ?thesis by (simp add: stage_rows_def)
next
  case (Some x)
  show ?thesis
  proof (cases x)
    case (Inl e)
    with Some have "\<forall>raw. stage_rows env path r raw = Some (Some e, raw ++ Map.empty)"
      by (simp add: stage_rows_def)
    then show ?thesis by blast
  next
    case (Inr rows)
    with Some have
      "\<forall>raw. stage_rows env path r raw =
         Some (None, raw ++ [path \<mapsto> written env (frame env rows)])"
      by (simp add: stage_rows_def write_raw_def)
    then show ?thesis by blast
  qed
qed

lemma stage_with_ids_overwrites:
  "(\<forall>raw. stage_with_ids env path idc r raw = None) \<or>
   (\<exists>e W. \<forall>raw. stage_with_ids env path idc r raw = Some (e, raw ++ W))"
proof (cases r)
  case None
  then show ?thesis by (simp add: stage_with_ids_def)
next
  case (Some x)
  show ?thesis
  proof (cases x)
    case (Inl e)
    with Some have "\<forall>raw. stage_with_ids env path idc r raw = Some (Some e, raw ++ Map.empty)"
      by (simp add: stage_with_ids_def)
    then show ?thesis by blast
  next
    case (Inr rows)
    show ?thesis
    proof (cases "insert_front idc (range_ids (len_df (frame env rows))) (frame env rows)")
      case (Inl e)
      with Some Inr have
        "\<forall>raw. stage_with_ids env path idc r raw = Some (Some e, raw ++ Map.empty)"
        by (simp add: stage_with_ids_def Let_def)
      then show ?thesis by blast
    next
      case ins: (Inr df')
      with Some Inr have
        "\<forall>raw. stage_with_ids env path idc r raw = Some (None, raw ++ [path \<mapsto> written env df'])"
        by (simp add: stage_with_ids_def Let_def write_raw_def)
      then show ?thesis by blast
    qed
  qed
qed

lemma extract_seasons_overwrites:
  "(\<forall>raw. extract_seasons env http raw = None) \<or>
   (\<exists>e W. \<forall>raw. extract_seasons env http raw = Some (e, raw ++ W))"
proof (cases "make_request http ''seasons'' 100 0")
  case None
  then have "\<forall>raw. extract_seasons env http raw = Some (None, raw ++ Map.empty)"
    by (simp add: extract_seasons_def)
  then show ?thesis by blast
next
  case (Some data)
  show ?thesis
  proof (cases "data = []")
    case True
    with Some have "\<forall>raw. extract_seasons env http raw = Some (None, raw ++ Map.empty)"
      by (simp add: extract_seasons_def)
    then show ?thesis by blast
  next
    case False
    with Some show ?thesis
      using stage_rows_overwrites by (simp add: extract_seasons_def)
  qed
qed

lemma announce_overwrites:
  assumes "(\<forall>raw. x raw = None) \<or> (\<exists>e W. \<forall>raw. x raw = Some (e, raw ++ W))"
  shows "(\<forall>raw. announce a b x raw = None) \<or>
         (\<exists>e W. \<forall>raw. announce a b x raw = Some (e, raw ++ W))"
proof (cases "py_str a = None \<or> py_str b = None")
  case True
  then have "\<forall>raw. announce a b x raw = Some (Some ValueError, raw ++ Map.empty)"
    by (auto simp add: announce_def split: option.splits)
  then show ?thesis by blast
next
  case False
  then have "announce a b x = x"
    by (auto simp add: announce_def fun_eq_iff split: option.splits)
  with assms show ?thesis by simp
qed

lemma extract_standings_overwrites:
  "(\<forall>raw. extract_standings env http a b raw = None) \<or>
   (\<exists>e W. \<forall>raw. extract_standings env http a b raw = Some (e, raw ++ W))"
  unfolding extract_standings_def
proof (rule announce_overwrites, rule disjI2,
    cases "map_result (standings_of_year env http) (year_range a b)")
  case (Inl e)
  then have "\<forall>raw. (case map_result (standings_of_year env http) (year_range a b) of
            Inl e \<Rightarrow> Some (Some e, raw)
          | Inr ys \<Rightarrow>
              Some (None,
                write_raw env ''driver_standings.csv'' (frame env (concat (map snd ys)))
                  (write_raw env ''constructor_standings.csv''
                     (frame env (concat (map fst ys))) raw))) = Some (Some e, raw ++ Map.empty)"
    by simp
  then show "\<exists>e W. \<forall>raw. (case map_result (standings_of_year env http) (year_range a b) of
            Inl e \<Rightarrow> Some (Some e, raw)
          | Inr ys \<Rightarrow>
              Some (None,
                write_raw env ''driver_standings.csv'' (frame env (concat (map snd ys)))
                  (write_raw env ''constructor_standings.csv''
                     (frame env (concat (map fst ys))) raw))) = Some (e, raw ++ W)"
    by blast
next
  case (Inr ys)
  then have "\<forall>raw. (case map_result (standings_of_year env http) (year_range a b) of
            Inl e \<Rightarrow> Some (Some e, raw)
          | Inr ys \<Rightarrow>
              Some (None,
                write_raw env ''driver_standings.csv'' (frame env (concat (map snd ys)))
                  (write_raw env ''constructor_standings.csv''
                     (frame env (concat (map fst ys))) raw))) =
       Some (None, raw ++ ([''constructor_standings.csv'' \<mapsto> written env (frame env (concat (map fst ys)))]
                 ++ [''driver_standings.csv'' \<mapsto> written env (frame env (concat (map snd ys)))]))"
    by (simp add: write_raw_add)
  then show "\<exists>e W. \<forall>raw. (case map_result (standings_of_year env http) (year_range a b) of
            Inl e \<Rightarrow> Some (Some e, raw)
          | Inr ys \<Rightarrow>
              Some (None,
                write_raw env ''driver_standings.csv'' (frame env (concat (map snd ys)))
                  (write_raw env ''constructor_standings.csv''
                     (frame env (concat (map fst ys))) raw))) = Some (e, raw ++ W)"
    by blast
qed

lemma run_extractions_overwrites:
  assumes "\<forall>x \<in> set xs. (\<forall>raw. x raw = None) \<or> (\<exists>e W. \<forall>raw. x raw = Some (e, raw ++ W))"
  shows "(\<forall>raw. run_extractions xs raw = None) \<or>
         (\<exists>e W. \<forall>raw. run_extractions xs raw = Some (e, raw ++ W))"
  using assms
proof (induction xs)
  case Nil
  have "\<forall>raw. run_extractions [] raw = Some (None, raw ++ Map.empty)"
    by simp
  then show ?case by blast
next
  case (Cons x xs)
  from Cons.prems have
    x: "(\<forall>raw. x raw = None) \<or> (\<exists>e W. \<forall>raw. x raw = Some (e, raw ++ W))"
    by simp
  from Cons have
    xs: "(\<forall>raw. run_extractions xs raw = None) \<or>
         (\<exists>e W. \<forall>raw. run_extractions xs raw = Some (e, raw ++ W))"
    by simp
  from x show ?case
  proof
    assume "\<forall>raw. x raw = None"
    then show ?thesis by simp
  next
    assume "\<exists>e W. \<forall>raw. x raw = Some (e, raw ++ W)"
    then obtain e W where xr: "\<forall>raw. x raw = Some (e, raw ++ W)"
      by blast
    show ?thesis
    proof (cases e)
      case (Some err)
      with xr have "\<forall>raw. run_extractions (x # xs) raw = Some (Some err, raw ++ W)"
        by simp
      then show ?thesis by blast
    next
      case None
      from xs show ?thesis
      proof
        assume "\<forall>raw. run_extractions xs raw = None"
        with xr None show ?thesis by simp
      next
        assume "\<exists>e W. \<forall>raw. run_extractions xs raw = Some (e, raw ++ W)"
        then obtain e' W' where "\<forall>raw. run_extractions xs raw = Some (e', raw ++ W')"
          by blast
        with xr None have
          "\<forall>raw. run_extractions (x # xs) raw = Some (e', raw ++ (W ++ W'))"
          by simp
        then show ?thesis by blast
      qed
    qed
  qed
qed

lemma extract_all_overwrites:
  "(\<forall>raw. extract_all env http a b raw = None) \<or>
   (\<exists>e W. \<forall>raw. extract_all env http a b raw = Some (e, raw ++ W))"
  unfolding extract_all_def
proof (rule run_extractions_overwrites, simp, intro conjI)
  show "(\<forall>raw. extract_circuits env http raw = None) \<or>
        (\<exists>e W. \<forall>raw. extract_circuits env http raw = Some (e, raw ++ W))"
    unfolding extract_circuits_def by (rule stage_rows_overwrites)
  show "(\<forall>raw. extract_seasons env http raw = None) \<or>
        (\<exists>e W. \<forall>raw. extract_seasons env http raw = Some (e, raw ++ W))"
    by (rule extract_seasons_overwrites)
  show "(\<forall>raw. extract_constructors env http raw = None) \<or>
        (\<exists>e W. \<forall>raw. extract_constructors env http raw = Some (e, raw ++ W))"
    unfolding extract_constructors_def by (rule stage_with_ids_overwrites)
  show "(\<forall>raw. extract_drivers env http raw = None) \<or>
        (\<exists>e W. \<forall>raw. extract_drivers env http raw = Some (e, raw ++ W))"
    unfolding extract_drivers_def by (rule stage_with_ids_overwrites)
  show "(\<forall>raw. extract_races env http a b raw = None) \<or>
        (\<exists>e W. \<forall>raw. extract_races env http a b raw = Some (e, raw ++ W))"
    unfolding extract_races_def by (rule announce_overwrites, rule stage_rows_overwrites)
  show "(\<forall>raw. extract_results env http a b raw = None) \<or>
        (\<exists>e W. \<forall>raw. extract_results env http a b raw = Some (e, raw ++ W))"
    unfolding extract_results_def by (rule announce_overwrites, rule stage_rows_overwrites)
  show "(\<forall>raw. extract_qualifying env http a b raw = None) \<or>
        (\<exists>e W. \<forall>raw. extract_qualifying env http a b raw = Some (e, raw ++ W))"
    unfolding extract_qualifying_def by (rule announce_overwrites, rule stage_rows_overwrites)
  show "(\<forall>raw. extract_pit_stops env http (max 2012 a) b raw = None) \<or>
        (\<exists>e W. \<forall>raw. extract_pit_stops env http (max 2012 a) b raw = Some (e, raw ++ W))"
    unfolding extract_pit_stops_def by (rule announce_overwrites, rule stage_rows_overwrites)
  show "(\<forall>raw. extract_standings env http a b raw = None) \<or>
        (\<exists>e W. \<forall>raw. extract_standings env http a b raw = Some (e, raw ++ W))"
    by (rule extract_standings_overwrites)
qed

lemma extract_all_rerun:
  assumes "extract_all env http a b raw = Some (e, raw')"
  shows "extract_all env http a b raw' = Some (e, raw')"
proof -
  from extract_all_overwrites [of env http a b] assms
  obtain e' W where w: "\<forall>raw. extract_all env http a b raw = Some (e', raw ++ W)"
    by fastforce
  with assms have "e' = e" "raw' = raw ++ W"
    by simp_all
  with w show ?thesis by (simp add: map_add_twice)
qed

text \<open>A loader reads the files and writes its own table: on what it has loaded it
  loads the same again.\<close>

lemma load_table_frame:
  assumes "load_table env r n db = (e, db')" and "t \<noteq> n"
  shows "db' t = db t"
  using assms by (auto simp add: load_table_def split: sum.splits if_splits option.splits)

lemma load_table_again:
  assumes "load_table env r n db = (e, db')" and "db2 n = db' n"
  shows "load_table env r n db2 = (e, db2)"
  using assms
  by (auto simp add: load_table_def fun_upd_idem_iff split: sum.splits if_splits option.splits)

lemma load_table_loads_only: "loads_only {n} (load_table env r n)"
  unfolding loads_only_def
proof (intro allI impI conjI)
  fix db e db' t
  assume "load_table env r n db = (e, db')" and "t \<notin> {n}"
  then show "db' t = db t"
    using load_table_frame [of env r n db e db' t] by simp
next
  fix db e db' db2
  assume "load_table env r n db = (e, db')" and "\<forall>t \<in> {n}. db2 t = db' t"
  then show "load_table env r n db2 = (e, db2)"
    using load_table_again [of env r n db e db' db2] by simp
qed

lemma run_stages_Nil_loads_only: "loads_only {} (run_stages [])"
  by (simp add: loads_only_def)

lemma run_stages_Cons_loads_only:
  assumes st: "loads_only T st" and sts: "loads_only Ts (run_stages sts)"
    and disj: "T \<inter> Ts = {}"
  shows "loads_only (T \<union> Ts) (run_stages (st # sts))"
  unfolding loads_only_def
proof (intro allI impI)
  fix db e db'
  assume run: "run_stages (st # sts) db = (e, db')"
  obtain e1 db1 where first: "st db = (e1, db1)"
    by (cases "st db")
  show "(\<forall>t. t \<notin> T \<union> Ts \<longrightarrow> db' t = db t) \<and>
        (\<forall>db2. (\<forall>t \<in> T \<union> Ts. db2 t = db' t) \<longrightarrow> run_stages (st # sts) db2 = (e, db2))"
  proof (cases e1)
    case (Some err)
    with run first have eq: "e = Some err" "db' = db1"
      by simp_all
    from st first have f: "\<forall>t. t \<notin> T \<longrightarrow> db1 t = db t"
      and a: "\<forall>db2. (\<forall>t \<in> T. db2 t = db1 t) \<longrightarrow> st db2 = (e1, db2)"
      unfolding loads_only_def by blast+
    from f eq have "\<forall>t. t \<notin> T \<union> Ts \<longrightarrow> db' t = db t"
      by simp
    moreover have "\<forall>db2. (\<forall>t \<in> T \<union> Ts. db2 t = db' t) \<longrightarrow> run_stages (st # sts) db2 = (e, db2)"
    proof (intro allI impI)
      fix db2
      assume "\<forall>t \<in> T \<union> Ts. db2 t = db' t"
      with eq a have "st db2 = (e1, db2)"
        by simp
      with Some eq show "run_stages (st # sts) db2 = (e, db2)"
        by simp
    qed
    ultimately show ?thesis by blast
  next
    case None
    with run first have rest: "run_stages sts db1 = (e, db')"
      by simp
    from st first have f: "\<forall>t. t \<notin> T \<longrightarrow> db1 t = db t"
      and a: "\<forall>db2. (\<forall>t \<in> T. db2 t = db1 t) \<longrightarrow> st db2 = (e1, db2)"
      unfolding loads_only_def by blast+
    from sts rest have f': "\<forall>t. t \<notin> Ts \<longrightarrow> db' t = db1 t"
      and a': "\<forall>db2. (\<forall>t \<in> Ts. db2 t = db' t) \<longrightarrow> run_stages sts db2 = (e, db2)"
      unfolding loads_only_def by blast+
    from f f' have "\<forall>t. t \<notin> T \<union> Ts \<longrightarrow> db' t = db t"
      by simp
    moreover have "\<forall>db2. (\<forall>t \<in> T \<union> Ts. db2 t = db' t) \<longrightarrow> run_stages (st # sts) db2 = (e, db2)"
    proof (intro allI impI)
      fix db2
      assume agree: "\<forall>t \<in> T \<union> Ts. db2 t = db' t"
      have "\<forall>t \<in> T. db2 t = db1 t"
      proof
        fix t
        assume t: "t \<in> T"
        with disj have "t \<notin> Ts"
          by blast
        with f' have "db' t = db1 t"
          by simp
        with agree t show "db2 t = db1 t"
          by simp
      qed
      with a have "st db2 = (e1, db2)"
        by simp
      moreover from a' agree have "run_stages sts db2 = (e, db2)"
        by simp
      ultimately show "run_stages (st # sts) db2 = (e, db2)"
        using None by simp
    qed
    ultimately show ?thesis by blast
  qed
qed


lemma load_standings_loads_only:
  "loads_only ({''constructor_standings''} \<union> ({''driver_standings''} \<union> {}))
     (load_standings env out)"
  unfolding load_standings_def
  by (intro run_stages_Cons_loads_only run_stages_Nil_loads_only load_table_loads_only) simp_all

lemma load_all_loads_only:
  "loads_only
     ({''seasons''} \<union> ({''circuits''} \<union> ({''constructors''} \<union> ({''drivers''} \<union>
      ({''races''} \<union> ({''results''} \<union> ({''qualifying''} \<union> ({''pit_stops''} \<union>
      (({''constructor_standings''} \<union> ({''driver_standings''} \<union> {})) \<union> {})))))))))
     (load_all env raw out)"
  unfolding load_all_def load_seasons_def load_circuits_def load_constructors_def
    load_drivers_def load_races_def load_results_def load_qualifying_def load_pit_stops_def
  by (intro run_stages_Cons_loads_only run_stages_Nil_loads_only load_table_loads_only
      load_standings_loads_only) simp_all

lemma load_all_rerun:
  assumes "load_all env raw out db = (e, db')"
  shows "load_all env raw out db' = (e, db')"
  using load_all_loads_only [of env raw out] assms unfolding loads_only_def by blast

lemma transform_all_again:
  assumes "transform_all pd fs out = (e, out')"
  shows "transform_all pd fs out' = (e, out')"
  using transform_all_rerun [of pd fs out] assms by simp


section \<open>The claims\<close>

text \<open>
  C2. When \<open>transform_results\<close> has run on a staged results table with a status column,
  every row of the cleaned table has a status id in \<open>{1, 2, 3, 4, 5, 11, 12, 13, 14}\<close>:
  Finished gives 1, Disqualified 2, Accident 3, Collision 4, Engine 5, +1 Lap 11,
  +2 Laps 12, +3 Laps 13, Retired 14, and any other status (also a missing one) gives 14.
\<close>

theorem status_mapping_total:
  assumes "\<not> missing_or_small fs ''results.csv''"
    and "read_csv fs ''results.csv'' = Inr df"
    and "wf_df df"
    and "map_of df ''status'' = Some col"
    and "i < length col"
    and "transform_results pd fs out = (None, out')"
  shows "\<exists>clean ids.
           out' ''results_clean.csv'' = Some clean \<and>
           map_of clean ''status_id'' = Some ids \<and> length ids = length col \<and>
           ids ! i \<in> Num ` {1, 2, 3, 4, 5, 11, 12, 13, 14} \<and>
           (col ! i = Str ''Finished'' \<longrightarrow> ids ! i = Num 1) \<and>
           (col ! i = Str ''Disqualified'' \<longrightarrow> ids ! i = Num 2) \<and>
           (col ! i = Str ''Accident'' \<longrightarrow> ids ! i = Num 3) \<and>
           (col ! i = Str ''Collision'' \<longrightarrow> ids ! i = Num 4) \<and>
           (col ! i = Str ''Engine'' \<longrightarrow> ids ! i = Num 5) \<and>
           (col ! i = Str ''+1 Lap'' \<longrightarrow> ids ! i = Num 11) \<and>
           (col ! i = Str ''+2 Laps'' \<longrightarrow> ids ! i = Num 12) \<and>
           (col ! i = Str ''+3 Laps'' \<longrightarrow> ids ! i = Num 13) \<and>
           (col ! i = Str ''Retired'' \<longrightarrow> ids ! i = Num 14) \<and>
           (col ! i \<noteq> Str ''Finished'' \<and> col ! i \<noteq> Str ''Disqualified'' \<and>
            col ! i \<noteq> Str ''Accident'' \<and> col ! i \<noteq> Str ''Collision'' \<and>
            col ! i \<noteq> Str ''Engine'' \<and> col ! i \<noteq> Str ''+1 Lap'' \<and>
            col ! i \<noteq> Str ''+2 Laps'' \<and> col ! i \<noteq> Str ''+3 Laps'' \<and>
            col ! i \<noteq> Str ''Retired'' \<longrightarrow> ids ! i = Num 14)"
proof -
  let ?ids = "fillna (Num 14) (series_map status_map col)"
  from assms(1,2,6) obtain clean where b: "results_body pd fs df = Inr clean"
    and o: "out' = out(''results_clean.csv'' \<mapsto> clean)"
    by (rule transform_results_written)
  have m: "map_of clean ''status_id'' = Some ?ids"
    using results_body_status [OF assms(3) b] assms(4) by simp
  have l: "length ?ids = length col"
    by (simp add: length_fillna length_series_map)
  have v: "?ids ! i = (case status_map (col ! i) of None \<Rightarrow> Num 14 | Some v \<Rightarrow> v)"
    using assms(5) by (rule status_id_nth)
  have r: "?ids ! i \<in> Num ` {1, 2, 3, 4, 5, 11, 12, 13, 14}"
    unfolding v by (rule status_id_range)
  have k: "col ! i = Str ''Finished'' \<longrightarrow> ?ids ! i = Num 1"
    "col ! i = Str ''Disqualified'' \<longrightarrow> ?ids ! i = Num 2"
    "col ! i = Str ''Accident'' \<longrightarrow> ?ids ! i = Num 3"
    "col ! i = Str ''Collision'' \<longrightarrow> ?ids ! i = Num 4"
    "col ! i = Str ''Engine'' \<longrightarrow> ?ids ! i = Num 5"
    "col ! i = Str ''+1 Lap'' \<longrightarrow> ?ids ! i = Num 11"
    "col ! i = Str ''+2 Laps'' \<longrightarrow> ?ids ! i = Num 12"
    "col ! i = Str ''+3 Laps'' \<longrightarrow> ?ids ! i = Num 13"
    "col ! i = Str ''Retired'' \<longrightarrow> ?ids ! i = Num 14"
    unfolding v by (simp_all add: status_map_known)
  have x: "col ! i \<noteq> Str ''Finished'' \<and> col ! i \<noteq> Str ''Disqualified'' \<and>
            col ! i \<noteq> Str ''Accident'' \<and> col ! i \<noteq> Str ''Collision'' \<and>
            col ! i \<noteq> Str ''Engine'' \<and> col ! i \<noteq> Str ''+1 Lap'' \<and>
            col ! i \<noteq> Str ''+2 Laps'' \<and> col ! i \<noteq> Str ''+3 Laps'' \<and>
            col ! i \<noteq> Str ''Retired'' \<longrightarrow> ?ids ! i = Num 14"
    unfolding v using status_map_other [of "col ! i"] by simp
  have w: "out' ''results_clean.csv'' = Some clean"
    unfolding o by simp
  show ?thesis
    using w m l r k x by (intro exI [of _ clean] exI [of _ ?ids] conjI)
qed


theorem status_mapping_total_witness:
  "\<exists>clean ids.
     snd (transform_results pandas_example raw_example Map.empty) ''results_clean.csv'' = Some clean \<and>
     map_of clean ''status_id'' = Some ids \<and> ids ! 0 = Num 1 \<and> ids ! 1 = Num 14"
proof -
  let ?col = "[Str ''Finished'', Str ''Gearbox'']"
  have h1: "\<not> missing_or_small raw_example ''results.csv''"
    by (simp add: missing_or_small_def raw_example_def)
  have h2: "read_csv raw_example ''results.csv'' = Inr results_example"
    by (simp add: read_csv_def raw_example_def)
  have h3: "wf_df results_example"
    by (simp add: wf_df_def len_df_def results_example_def)
  have h4: "map_of results_example ''status'' = Some ?col"
    by (simp add: results_example_def)
  note t = status_mapping_total [OF h1 h2 h3 h4 _ transform_results_example]
  have t0: "(0::nat) < length ?col" and t1: "(1::nat) < length ?col"
    by simp_all
  from t [OF t0] t [OF t1] show ?thesis
    unfolding transform_results_example by (auto simp: map_upd_Some_unfold)
qed

text \<open>
  C10. When the staged results table has no status column, \<open>transform_results\<close> gives
  every row the status id 1 (Finished), not the 14 it gives to an unknown status text.
\<close>

theorem status_default_without_column:
  assumes "\<not> missing_or_small fs ''results.csv''"
    and "read_csv fs ''results.csv'' = Inr df"
    and "wf_df df"
    and "map_of df ''status'' = None"
    and "transform_results pd fs out = (None, out')"
  shows "\<exists>clean. out' ''results_clean.csv'' = Some clean \<and>
           map_of clean ''status_id'' = Some (replicate (len_df df) (Num 1))"
proof -
  from assms(1,2,5) obtain clean where b: "results_body pd fs df = Inr clean"
    and o: "out' = out(''results_clean.csv'' \<mapsto> clean)"
    by (rule transform_results_written)
  have "map_of clean ''status_id'' = Some (replicate (len_df df) (Num 1))"
    using results_body_status [OF assms(3) b] assms(4) by simp
  moreover have "out' ''results_clean.csv'' = Some clean"
    unfolding o by simp
  ultimately show ?thesis
    by blast
qed

theorem status_default_without_column_witness:
  "\<exists>clean.
     snd (transform_results pandas_example raw_without_status Map.empty) ''results_clean.csv''
       = Some clean \<and>
     map_of clean ''status_id'' = Some [Num 1, Num 1]"
proof -
  have h1: "\<not> missing_or_small raw_without_status ''results.csv''"
    by (simp add: missing_or_small_def raw_without_status_def)
  have h2: "read_csv raw_without_status ''results.csv'' = Inr results_without_status"
    by (simp add: read_csv_def raw_without_status_def)
  have h3: "wf_df results_without_status"
    by (simp add: wf_df_def len_df_def results_without_status_def)
  have h4: "map_of results_without_status ''status'' = None"
    by (simp add: results_without_status_def)
  have n: "replicate (len_df results_without_status) (Num 1) = [Num 1, Num 1]"
    by (simp add: len_df_def results_without_status_def)
  from status_default_without_column [OF h1 h2 h3 h4 transform_results_without_status]
  show ?thesis
    unfolding transform_results_without_status n by simp
qed

text \<open>
  C1. The claim is that a dependent row whose natural key has no match in the reference
  table gets the foreign key 0. On the staged tables of the example (one driver,
  \<open>max_verstappen\<close> with id 1, and result rows for \<open>max_verstappen\<close> and
  \<open>unknown_driver\<close>) \<open>transform_results\<close> returns without an error and writes the driver
  ids 1 and NaN: the unmatched row is left missing, it is not set to 0.
\<close>

theorem unresolved_driver_is_missing:
  "\<exists>clean.
     fst (transform_results pandas_example raw_example Map.empty) = None \<and>
     snd (transform_results pandas_example raw_example Map.empty) ''results_clean.csv''
       = Some clean \<and>
     map_of clean ''driver_ref'' = Some [Str ''max_verstappen'', Str ''unknown_driver''] \<and>
     map_of clean ''driver_id'' = Some [Num 1, NaN]"
  unfolding transform_results_example by simp

text \<open>
  C8. The claim is that every reference table without its surrogate-key column gets the
  ids 1..N on the fly. With a drivers file and a constructors file that both lack the id
  column, the driver of the result row resolves to 1, and its constructor, although
  listed in the constructors file, to the sentinel 0.
\<close>

theorem constructors_without_id_resolve_to_zero:
  "\<exists>clean.
     fst (transform_results pandas_example raw_without_ids Map.empty) = None \<and>
     snd (transform_results pandas_example raw_without_ids Map.empty) ''results_clean.csv''
       = Some clean \<and>
     map_of clean ''driver_id'' = Some [Num 1] \<and>
     map_of clean ''constructor_id'' = Some [Num 0]"
  by (simp add: eval_defs raw_without_ids_def pandas_example_def range_ids_def)

text \<open>
  C6. The claim is that a missing staged file gives an empty output table for that entity
  and that the run goes on. With drivers, races, results and pit stops staged and no
  qualifying file, \<open>transform_all\<close> raises FileNotFoundError: no qualifying table is written,
  and the pit-stop stage, whose file is there, is never reached.
\<close>

theorem missing_qualifying_file_aborts_run:
  "fst (transform_all pandas_example raw_without_qualifying Map.empty) = Some FileNotFoundError \<and>
   dom (snd (transform_all pandas_example raw_without_qualifying Map.empty)) =
     {''circuits_clean.csv'', ''drivers_clean.csv'', ''races_clean.csv'', ''results_clean.csv''}"
  by (simp add: stage_defs eval_defs raw_without_qualifying_def races_example_def
      results_example_def drivers_example_def pit_stops_example_def pandas_example_def
      insert_commute)

text \<open>
  C5. The milliseconds of a pit stop. \<open>extract_pit_stops\<close> computes
  \<open>int(float(duration) * 1000)\<close>: the product of two doubles, rounded to a double, with its
  fraction dropped. For the duration \<open>"32.001"\<close> the product is
  \<open>8796367900114943 / 2^38\<close>, just below 32001, and the field is 32000, not the nearest
  integer 32001 of \<open>32.001 * 1000\<close>; for \<open>"21.5"\<close> it is 21500. \<open>transform_pit_stops\<close>,
  when the staged table has no milliseconds, computes the column with the same product and
  \<open>astype(int)\<close>: the duration cell holding the double nearest to 32.001 also gives 32000.
\<close>

theorem pit_stop_milliseconds_truncated:
  "pit_stop_milliseconds [''duration'' \<mapsto> ''32.001''] = Inr (Num 32000) \<and>
   pit_stop_milliseconds [''duration'' \<mapsto> ''21.5''] = Inr (Num 21500) \<and>
   and_then
     (pit_stop_milliseconds_column pandas_example
        [(''duration'', [Num (4503740364858851 / 140737488355328)])])
     (\<lambda>df. get_col df ''milliseconds'') = Inr [Num 32000]"
proof (intro conjI)
  show "pit_stop_milliseconds [''duration'' \<mapsto> ''32.001''] = Inr (Num 32000)"
    by (simp add: pit_stop_milliseconds_def dict_get_def py_float_32001 and_then_def
        float_32001_times_1000 int_of_float_def toward_zero_32001)
  show "pit_stop_milliseconds [''duration'' \<mapsto> ''21.5''] = Inr (Num 21500)"
    by (simp add: pit_stop_milliseconds_def dict_get_def py_float_215 and_then_def
        float_215_times_1000 int_of_float_def toward_zero_def)
  show "and_then
     (pit_stop_milliseconds_column pandas_example
        [(''duration'', [Num (4503740364858851 / 140737488355328)])])
     (\<lambda>df. get_col df ''milliseconds'') = Inr [Num 32000]"
    by (simp add: pit_stop_milliseconds_column_def and_then_def to_numeric_def times_1000_def
        float_32001_times_1000 get_col_def has_col_def fillna_def astype_int_def
        int_of_cell_def is_text_def float64_to_int64_def int64_def toward_zero_32001)
qed








end
